theory Spec2Isabelle
  imports Main "HOL-Library.Sublist"
begin

section \<open>JavaScript values and strings\<close>

text \<open>
  A JavaScript string is modelled as a \<open>string\<close>: one \<open>char\<close> per UTF-16 code unit,
  restricted to the code units below 256. \<open>length\<close> is the \<open>.length\<close> of the source,
  \<open>take n\<close> is \<open>substring(0, n)\<close>.

  Payloads handed to the tool hooks are plain data: \<open>undefined\<close>, \<open>null\<close>, booleans,
  numbers (integers here), strings, arrays and plain objects. An object is the list of
  its own enumerable string-keyed properties in the order \<open>Object.entries\<close> yields them
  (keys of a well-formed object are distinct).
\<close>

datatype jsvalue =
    JUndefined
  | JNull
  | JBool bool
  | JNum int
  | JStr string
  | JArr "jsvalue list"
  | JObj "(string \<times> jsvalue) list"

text \<open>\<open>String.prototype.toLowerCase\<close> on code units below 256: A-Z and the Latin-1
  capitals (0xC0-0xDE except the multiplication sign 0xD7) move up by 32.\<close>

definition toLowerCase_char :: "char \<Rightarrow> char" where
  "toLowerCase_char c =
     (let n = (of_char c :: nat)
      in if (65 \<le> n \<and> n \<le> 90) \<or> (192 \<le> n \<and> n \<le> 222 \<and> n \<noteq> 215)
         then char_of (n + 32) else c)"

definition toLowerCase :: "string \<Rightarrow> string" where
  "toLowerCase s = map toLowerCase_char s"

text \<open>\<open>s.includes(sub)\<close>: \<open>sub\<close> occurs in \<open>s\<close> as a contiguous run.\<close>

fun includes_str :: "string \<Rightarrow> string \<Rightarrow> bool" where
  "includes_str [] sub = (sub = [])"
| "includes_str (c # cs) sub = (prefix sub (c # cs) \<or> includes_str cs sub)"

text \<open>Decimal rendering of a number inside a template literal.\<close>

definition digit_char :: "nat \<Rightarrow> char" where
  "digit_char d = ''0123456789'' ! d"

function show_nat :: "nat \<Rightarrow> string" where
  "show_nat n = (if n < 10 then [digit_char n] else show_nat (n div 10) @ [digit_char (n mod 10)])"
  by pat_completeness auto
termination
  by (relation "measure (\<lambda>n. n)") auto

declare show_nat.simps [simp del]

definition show_int :: "int \<Rightarrow> string" where
  "show_int i = (if i < 0 then CHR ''-'' # show_nat (nat (- i)) else show_nat (nat i))"

text \<open>\<open>Array.prototype.join(sep)\<close> on an array of strings.\<close>

fun join :: "string \<Rightarrow> string list \<Rightarrow> string" where
  "join sep [] = []"
| "join sep [x] = x"
| "join sep (x # y # ys) = x @ sep @ join sep (y # ys)"

text \<open>
  Assignment \<open>out[key] = v\<close> on an object created by the literal \<open>{}\<close>. The key
  \<open>__proto__\<close> is the accessor inherited from \<open>Object.prototype\<close>: assigning to it
  sets (or, for a primitive, ignores) the prototype and creates no own property. Every
  other key is updated in place when present and appended otherwise.
\<close>

fun js_update :: "(string \<times> jsvalue) list \<Rightarrow> string \<Rightarrow> jsvalue \<Rightarrow> (string \<times> jsvalue) list" where
  "js_update [] k v = [(k, v)]"
| "js_update ((k', v') # ps) k v = (if k' = k then (k, v) # ps else (k', v') # js_update ps k v)"

definition js_assign :: "(string \<times> jsvalue) list \<Rightarrow> string \<Rightarrow> jsvalue \<Rightarrow> (string \<times> jsvalue) list" where
  "js_assign out key v = (if key = ''__proto__'' then out else js_update out key v)"

section \<open>Task bridge: text extraction (executor.ts)\<close>

text \<open>The parts of an inbound A2A message: text, file and data parts.\<close>

datatype part =
    TextPart string
  | FilePart string
  | DataPart jsvalue

fun is_text :: "part \<Rightarrow> bool" where
  "is_text (TextPart t) = True"
| "is_text _ = False"

fun part_text :: "part \<Rightarrow> string" where
  "part_text (TextPart t) = t"
| "part_text _ = []"

text \<open>\<open>extractText\<close>: \<open>message.parts.filter(p => p.kind === "text").map(p => p.text).join("\n")\<close>.\<close>

definition extractText :: "part list \<Rightarrow> string" where
  "extractText parts = join [CHR 0x0A] (map part_text (filter is_text parts))"

text \<open>The claim's wording, for comparison: the plain concatenation of the text parts.\<close>

fun text_parts :: "part list \<Rightarrow> string list" where
  "text_parts [] = []"
| "text_parts (TextPart t # ps) = t # text_parts ps"
| "text_parts (_ # ps) = text_parts ps"

definition concatenated_text :: "part list \<Rightarrow> string" where
  "concatenated_text parts = concat (text_parts parts)"

section \<open>Tool evidence recorder: helpers (mcp-hooks.ts)\<close>

definition MAX_DATA_SIZE :: nat where
  "MAX_DATA_SIZE = 100000"

definition SENSITIVE_KEYS :: "string list" where
  "SENSITIVE_KEYS = [''token'', ''access_token'', ''authorization'', ''api_key'',
     ''apikey'', ''password'', ''secret'', ''credential'']"

definition is_sensitive :: "string \<Rightarrow> bool" where
  "is_sensitive key = (toLowerCase key \<in> set SENSITIVE_KEYS)"

definition redacted :: jsvalue where
  "redacted = JStr ''<redacted>''"

text \<open>
  \<open>sanitize\<close>: \<open>null\<close>, \<open>undefined\<close> and every non-object are returned as they are; an
  array is mapped; for an object the loop over \<open>Object.entries(data)\<close> assigns into a
  fresh \<open>out\<close> (\<open>sanitize_props\<close> carries \<open>out\<close>).
\<close>

fun sanitize :: "jsvalue \<Rightarrow> jsvalue"
  and sanitize_all :: "jsvalue list \<Rightarrow> jsvalue list"
  and sanitize_props :: "(string \<times> jsvalue) list \<Rightarrow> (string \<times> jsvalue) list \<Rightarrow> (string \<times> jsvalue) list"
where
  "sanitize JUndefined = JUndefined"
| "sanitize JNull = JNull"
| "sanitize (JBool b) = JBool b"
| "sanitize (JNum n) = JNum n"
| "sanitize (JStr s) = JStr s"
| "sanitize (JArr xs) = JArr (sanitize_all xs)"
| "sanitize (JObj ps) = JObj (sanitize_props ps [])"
| "sanitize_all [] = []"
| "sanitize_all (x # xs) = sanitize x # sanitize_all xs"
| "sanitize_props [] out = out"
| "sanitize_props ((key, val) # ps) out =
     sanitize_props ps
       (if is_sensitive key then js_assign out key redacted
        else js_assign out key (sanitize val))"

text \<open>
  \<open>JSON.stringify\<close> is the runtime's: it returns a string, returns \<open>undefined\<close> (for
  \<open>undefined\<close> itself) or throws. \<open>safeJson\<close> and \<open>truncate_data\<close> take it as the parameter
  \<open>stringify\<close>; \<open>JSON_stringify\<close> below is the runtime's function on the values modelled
  here.
\<close>

datatype stringified = Text string | NoText | Throws

datatype js_error = TypeError | Error string

text \<open>\<open>safeJson\<close>: the \<open>catch\<close> replaces a throw by the placeholder; an \<open>undefined\<close>
  result is returned as it is (\<open>None\<close>).\<close>

definition safeJson :: "(jsvalue \<Rightarrow> stringified) \<Rightarrow> jsvalue \<Rightarrow> string option" where
  "safeJson stringify v =
     (case stringify v of
        Text s \<Rightarrow> Some s
      | NoText \<Rightarrow> None
      | Throws \<Rightarrow> Some (CHR 0x22 # ''<unserializable>'' @ [CHR 0x22]))"

text \<open>\<open>truncate\<close> of the source (\<open>truncate_data\<close> here, the plain name being taken by
  the record package): the string branch first, then the size of the serialized value.
  Reading \<open>.length\<close> of an \<open>undefined\<close> serialization raises a TypeError.\<close>

definition truncation_marker :: "string \<Rightarrow> jsvalue" where
  "truncation_marker json =
     JObj [(''_truncated'', JBool True),
           (''_original_size'', JNum (int (length json))),
           (''preview'', JStr (take MAX_DATA_SIZE json))]"

definition truncate_json :: "(jsvalue \<Rightarrow> stringified) \<Rightarrow> jsvalue \<Rightarrow> js_error + jsvalue" where
  "truncate_json stringify data =
     (case safeJson stringify data of
        None \<Rightarrow> Inl TypeError
      | Some json \<Rightarrow>
          if length json > MAX_DATA_SIZE then Inr (truncation_marker json) else Inr data)"

definition truncate_data :: "(jsvalue \<Rightarrow> stringified) \<Rightarrow> jsvalue \<Rightarrow> js_error + jsvalue" where
  "truncate_data stringify data =
     (case data of
        JStr s \<Rightarrow>
          if length s > MAX_DATA_SIZE
          then Inr (JStr (take MAX_DATA_SIZE s @
                          ''... [truncated, total '' @ show_nat (length s) @ '' chars]''))
          else truncate_json stringify data
      | _ \<Rightarrow> truncate_json stringify data)"

text \<open>The guard of the string branch: \<open>typeof data === "string" && data.length > MAX_DATA_SIZE\<close>.\<close>

fun long_string :: "jsvalue \<Rightarrow> bool" where
  "long_string (JStr s) = (MAX_DATA_SIZE < length s)"
| "long_string _ = False"

text \<open>
  The runtime's \<open>JSON.stringify\<close> on the modelled values. A string is quoted with the
  escapes of the ECMAScript \<open>QuoteJSONString\<close>; an integer is printed in decimal (as the
  runtime does below \<open>10^21\<close>); \<open>undefined\<close> is \<open>null\<close> inside an array and its property
  is left out of an object; at the top level the result is \<open>undefined\<close>.
\<close>

definition hex_digit :: "nat \<Rightarrow> char" where
  "hex_digit d = ''0123456789abcdef'' ! d"

definition escape_char :: "char \<Rightarrow> string" where
  "escape_char c =
     (if c = CHR 0x22 then [CHR 0x5C, CHR 0x22]
      else if c = CHR 0x5C then [CHR 0x5C, CHR 0x5C]
      else if c = CHR 0x08 then [CHR 0x5C, CHR ''b'']
      else if c = CHR 0x0C then [CHR 0x5C, CHR ''f'']
      else if c = CHR 0x0A then [CHR 0x5C, CHR ''n'']
      else if c = CHR 0x0D then [CHR 0x5C, CHR ''r'']
      else if c = CHR 0x09 then [CHR 0x5C, CHR ''t'']
      else if (of_char c :: nat) < 32
      then [CHR 0x5C, CHR ''u'', CHR ''0'', CHR ''0'',
            hex_digit (of_char c div 16), hex_digit (of_char c mod 16)]
      else [c])"

definition quote_json :: "string \<Rightarrow> string" where
  "quote_json s = CHR 0x22 # concat (map escape_char s) @ [CHR 0x22]"

fun serialize :: "jsvalue \<Rightarrow> string option"
  and serialize_items :: "jsvalue list \<Rightarrow> string list"
  and serialize_props :: "(string \<times> jsvalue) list \<Rightarrow> string list"
where
  "serialize JUndefined = None"
| "serialize JNull = Some ''null''"
| "serialize (JBool b) = Some (if b then ''true'' else ''false'')"
| "serialize (JNum n) = Some (show_int n)"
| "serialize (JStr s) = Some (quote_json s)"
| "serialize (JArr xs) = Some (''['' @ join '','' (serialize_items xs) @ '']'')"
| "serialize (JObj ps) = Some (''{'' @ join '','' (serialize_props ps) @ ''}'')"
| "serialize_items [] = []"
| "serialize_items (x # xs) =
     (case serialize x of None \<Rightarrow> ''null'' | Some t \<Rightarrow> t) # serialize_items xs"
| "serialize_props [] = []"
| "serialize_props ((k, v) # ps) =
     (case serialize v of
        None \<Rightarrow> serialize_props ps
      | Some t \<Rightarrow> (quote_json k @ '':'' @ t) # serialize_props ps)"

definition JSON_stringify :: "jsvalue \<Rightarrow> stringified" where
  "JSON_stringify v = (case serialize v of None \<Rightarrow> NoText | Some t \<Rightarrow> Text t)"

section \<open>Session registry (session-manager.ts)\<close>

text \<open>
  A JavaScript \<open>Map\<close> is an association list with distinct keys in insertion order:
  \<open>get\<close>, \<open>set\<close> (in place for a present key, appended otherwise) and \<open>delete\<close>.
\<close>

fun map_get :: "('k \<times> 'v) list \<Rightarrow> 'k \<Rightarrow> 'v option" where
  "map_get [] k = None"
| "map_get ((k', v') # ps) k = (if k' = k then Some v' else map_get ps k)"

fun map_set :: "('k \<times> 'v) list \<Rightarrow> 'k \<Rightarrow> 'v \<Rightarrow> ('k \<times> 'v) list" where
  "map_set [] k v = [(k, v)]"
| "map_set ((k', v') # ps) k v = (if k' = k then (k, v) # ps else (k', v') # map_set ps k v)"

fun map_delete :: "('k \<times> 'v) list \<Rightarrow> 'k \<Rightarrow> ('k \<times> 'v) list" where
  "map_delete [] k = []"
| "map_delete ((k', v') # ps) k = (if k' = k then map_delete ps k else (k', v') # map_delete ps k)"

text \<open>
  The SDK's session object is opaque: a \<open>handle\<close>. Times are the millisecond readings
  of \<open>Date.now()\<close>.
\<close>

type_synonym handle = nat

record SessionEntry =
  sessionId :: string
  session :: handle
  createdAt :: int
  lastUsed :: int

record SessionConfig =
  reuseByContext :: bool
  ttl :: "int option"
  cleanupInterval :: "int option"

text \<open>
  The manager's fields, and what it has done to the SDK so far: the sessions that
  \<open>client.createSession\<close> returned to it (\<open>sdk_created\<close>), the sessions whose
  \<open>destroy()\<close> it called (\<open>sdk_destroyed\<close>, in call order), and the warnings it logged.
\<close>

record SessionManager =
  contextSessions :: "(string \<times> SessionEntry) list"
  taskSessions :: "(string \<times> string) list"
  cleanupTimer :: bool
  sdk_created :: "handle list"
  sdk_destroyed :: "handle list"
  warnings :: nat

definition new_SessionManager :: SessionManager where
  "new_SessionManager =
     \<lparr>contextSessions = [], taskSessions = [], cleanupTimer = False,
      sdk_created = [], sdk_destroyed = [], warnings = 0\<rparr>"

text \<open>What \<open>createSession\<close> returns: the session object and its \<open>sessionId\<close> property
  (\<open>None\<close> when the property is \<open>null\<close> or \<open>undefined\<close>).\<close>

record created_session =
  cs_handle :: handle
  cs_sessionId :: "string option"

text \<open>
  What one call of \<open>getOrCreate\<close> reads from outside: each \<open>Date.now()\<close> in source
  order, whether the stale session's \<open>destroy()\<close> rejects, and what \<open>createSession\<close>
  does (\<open>Inl\<close>: it rejects).
\<close>

record session_env =
  now_age :: int
  now_reuse :: int
  destroy_rejects :: bool
  create_result :: "js_error + created_session"
  now_id :: int
  now_createdAt :: int
  now_lastUsed :: int

record acquired =
  acq_sessionId :: string
  acq_session :: handle
  isNew :: bool

text \<open>\<open>session.ttl ?? 3_600_000\<close>.\<close>

definition ttl_ms :: "SessionConfig \<Rightarrow> int" where
  "ttl_ms cfg = (case ttl cfg of Some t \<Rightarrow> t | None \<Rightarrow> 3600000)"

text \<open>\<open>destroySession\<close>: nothing for an unregistered context; otherwise \<open>destroy()\<close> is
  awaited, a rejection is logged and swallowed, and the entry is deleted.\<close>

definition destroySession :: "bool \<Rightarrow> string \<Rightarrow> SessionManager \<Rightarrow> SessionManager" where
  "destroySession rejects contextId m =
     (case map_get (contextSessions m) contextId of
        None \<Rightarrow> m
      | Some entry \<Rightarrow>
          (let m1 = m\<lparr>sdk_destroyed := sdk_destroyed m @ [session entry]\<rparr>;
               m2 = (if rejects then m1\<lparr>warnings := warnings m1 + 1\<rparr> else m1)
           in m2\<lparr>contextSessions := map_delete (contextSessions m2) contextId\<rparr>))"

text \<open>\<open>copilotSession.sessionId ?? `session-${Date.now()}`\<close>.\<close>

definition new_session_id :: "session_env \<Rightarrow> created_session \<Rightarrow> string" where
  "new_session_id env cs =
     (case cs_sessionId cs of Some s \<Rightarrow> s | None \<Rightarrow> ''session-'' @ show_int (now_id env))"

text \<open>The second half of \<open>getOrCreate\<close>, from \<open>// Create new session\<close> on. The entry is
  stored only for a truthy (non-empty) \<open>contextId\<close>.\<close>

definition create_new :: "session_env \<Rightarrow> string \<Rightarrow> SessionManager \<Rightarrow> (js_error + acquired) \<times> SessionManager" where
  "create_new env contextId m =
     (case create_result env of
        Inl err \<Rightarrow> (Inl err, m)
      | Inr copilotSession \<Rightarrow>
          (let sid = new_session_id env copilotSession;
               entry = \<lparr>sessionId = sid, session = cs_handle copilotSession,
                        createdAt = now_createdAt env, lastUsed = now_lastUsed env\<rparr>;
               m1 = m\<lparr>sdk_created := sdk_created m @ [cs_handle copilotSession]\<rparr>;
               m2 = (if contextId \<noteq> []
                     then m1\<lparr>contextSessions := map_set (contextSessions m1) contextId entry\<rparr>
                     else m1)
           in (Inr \<lparr>acq_sessionId = sid, acq_session = cs_handle copilotSession, isNew = True\<rparr>, m2)))"

definition getOrCreate :: "SessionConfig \<Rightarrow> session_env \<Rightarrow> string \<Rightarrow> SessionManager \<Rightarrow> (js_error + acquired) \<times> SessionManager" where
  "getOrCreate cfg env contextId m =
     (if reuseByContext cfg \<and> contextId \<noteq> [] then
        (case map_get (contextSessions m) contextId of
           Some existing \<Rightarrow>
             if now_age env - createdAt existing < ttl_ms cfg
             then (Inr \<lparr>acq_sessionId = sessionId existing, acq_session = session existing, isNew = False\<rparr>,
                   m\<lparr>contextSessions :=
                       map_set (contextSessions m) contextId (existing\<lparr>lastUsed := now_reuse env\<rparr>)\<rparr>)
             else create_new env contextId (destroySession (destroy_rejects env) contextId m)
         | None \<Rightarrow> create_new env contextId m)
      else create_new env contextId m)"

definition trackTask :: "string \<Rightarrow> string \<Rightarrow> SessionManager \<Rightarrow> SessionManager" where
  "trackTask taskId sid m = m\<lparr>taskSessions := map_set (taskSessions m) taskId sid\<rparr>"

definition untrackTask :: "string \<Rightarrow> SessionManager \<Rightarrow> SessionManager" where
  "untrackTask taskId m = m\<lparr>taskSessions := map_delete (taskSessions m) taskId\<rparr>"

definition getSessionForTask :: "SessionManager \<Rightarrow> string \<Rightarrow> string option" where
  "getSessionForTask m taskId = map_get (taskSessions m) taskId"

definition getSessionForContext :: "SessionManager \<Rightarrow> string \<Rightarrow> handle option" where
  "getSessionForContext m contextId = map_option session (map_get (contextSessions m) contextId)"

text \<open>\<open>startCleanup\<close> arms the timer unless the interval is not positive; one tick of the
  timer destroys (rejections ignored) and evicts every entry idle for longer than the TTL.\<close>

definition startCleanup :: "SessionConfig \<Rightarrow> SessionManager \<Rightarrow> SessionManager" where
  "startCleanup cfg m =
     (if (case cleanupInterval cfg of Some i \<Rightarrow> i | None \<Rightarrow> 300000) \<le> 0 then m
      else m\<lparr>cleanupTimer := True\<rparr>)"

fun cleanup_entries :: "int \<Rightarrow> int \<Rightarrow> (string \<times> SessionEntry) list \<Rightarrow> SessionManager \<Rightarrow> SessionManager" where
  "cleanup_entries t now [] m = m"
| "cleanup_entries t now ((contextId, entry) # es) m =
     cleanup_entries t now es
       (if now - lastUsed entry > t
        then m\<lparr>sdk_destroyed := sdk_destroyed m @ [session entry],
               contextSessions := map_delete (contextSessions m) contextId\<rparr>
        else m)"

definition cleanup_tick :: "SessionConfig \<Rightarrow> int \<Rightarrow> SessionManager \<Rightarrow> SessionManager" where
  "cleanup_tick cfg now m = cleanup_entries (ttl_ms cfg) now (contextSessions m) m"

fun shutdown_entries :: "(string \<times> SessionEntry) list \<Rightarrow> SessionManager \<Rightarrow> SessionManager" where
  "shutdown_entries [] m = m"
| "shutdown_entries ((contextId, entry) # es) m =
     shutdown_entries es
       (m\<lparr>sdk_destroyed := sdk_destroyed m @ [session entry],
          contextSessions := map_delete (contextSessions m) contextId\<rparr>)"

definition shutdown :: "SessionManager \<Rightarrow> SessionManager" where
  "shutdown m = shutdown_entries (contextSessions m) (m\<lparr>cleanupTimer := False\<rparr>)"

text \<open>What every reachable registry satisfies: no entry is keyed by the empty context
  (\<open>contextSessions.set\<close> is guarded by \<open>if (contextId)\<close>).\<close>

definition registry_ok :: "SessionManager \<Rightarrow> bool" where
  "registry_ok m = (map_get (contextSessions m) [] = None)"

section \<open>Event publisher (event-publisher.ts)\<close>

text \<open>
  What goes out on the execution's event bus, in call order: the published events and
  the call of \<open>bus.finished()\<close>. Fields filled from the clock or the random generator
  (\<open>timestamp\<close>, \<open>messageId\<close>, the uuid inside an \<open>artifactId\<close>) carry no behaviour and are
  left out; an artifact id is either the execution's one \<open>streamArtifactId\<close> or a fresh
  id with the given prefix.
\<close>

datatype task_state = Submitted | Working | Failed | Completed | Canceled

datatype artifact_id = StreamArtifactId | FreshId string

record status_update =
  su_taskId :: string
  su_contextId :: string
  su_state :: task_state
  su_message :: "string option"
  su_final :: bool

record artifact_update =
  au_taskId :: string
  au_contextId :: string
  au_append :: bool
  au_lastChunk :: bool
  au_artifactId :: artifact_id
  au_name :: string
  au_part :: part

datatype bus_event =
    TaskEvent string string "part list"
  | StatusUpdate status_update
  | ArtifactUpdate artifact_update
  | Finished

type_synonym bus = "bus_event list"

text \<open>\<open>publishStatus\<close>: the message is attached only for a truthy \<open>messageText\<close>.\<close>

definition publishStatus :: "string \<Rightarrow> string \<Rightarrow> task_state \<Rightarrow> string option \<Rightarrow> bool \<Rightarrow> bus \<Rightarrow> bus" where
  "publishStatus taskId contextId state messageText final b =
     b @ [StatusUpdate \<lparr>su_taskId = taskId, su_contextId = contextId, su_state = state,
                        su_message = (case messageText of
                                        Some t \<Rightarrow> if t \<noteq> [] then Some t else None
                                      | None \<Rightarrow> None),
                        su_final = final\<rparr>]"

definition publishFinalArtifact :: "string \<Rightarrow> string \<Rightarrow> string \<Rightarrow> bus \<Rightarrow> bus" where
  "publishFinalArtifact taskId contextId txt b =
     b @ [ArtifactUpdate \<lparr>au_taskId = taskId, au_contextId = contextId,
                          au_append = False, au_lastChunk = True,
                          au_artifactId = FreshId ''response-'', au_name = ''response'',
                          au_part = TextPart txt\<rparr>]"

definition publishStreamingChunk :: "string \<Rightarrow> string \<Rightarrow> artifact_id \<Rightarrow> string \<Rightarrow> bus \<Rightarrow> bus" where
  "publishStreamingChunk taskId contextId artifactId chunkText b =
     b @ [ArtifactUpdate \<lparr>au_taskId = taskId, au_contextId = contextId,
                          au_append = True, au_lastChunk = False,
                          au_artifactId = artifactId, au_name = ''response'',
                          au_part = TextPart chunkText\<rparr>]"

definition publishLastChunkMarker :: "string \<Rightarrow> string \<Rightarrow> artifact_id \<Rightarrow> string \<Rightarrow> bus \<Rightarrow> bus" where
  "publishLastChunkMarker taskId contextId artifactId fullText b =
     b @ [ArtifactUpdate \<lparr>au_taskId = taskId, au_contextId = contextId,
                          au_append = True, au_lastChunk = True,
                          au_artifactId = artifactId, au_name = ''response'',
                          au_part = TextPart fullText\<rparr>]"

definition publishTraceArtifact :: "string \<Rightarrow> string \<Rightarrow> string \<Rightarrow> jsvalue \<Rightarrow> bus \<Rightarrow> bus" where
  "publishTraceArtifact taskId contextId traceKey data b =
     b @ [ArtifactUpdate \<lparr>au_taskId = taskId, au_contextId = contextId,
                          au_append = False, au_lastChunk = True,
                          au_artifactId = FreshId (traceKey @ ''-''), au_name = traceKey,
                          au_part = DataPart data\<rparr>]"

definition publishThoughtArtifact :: "string \<Rightarrow> string \<Rightarrow> string \<Rightarrow> string \<Rightarrow> bus \<Rightarrow> bus" where
  "publishThoughtArtifact taskId contextId traceKey txt b =
     b @ [ArtifactUpdate \<lparr>au_taskId = taskId, au_contextId = contextId,
                          au_append = False, au_lastChunk = True,
                          au_artifactId = FreshId (traceKey @ ''-''), au_name = traceKey,
                          au_part = TextPart txt\<rparr>]"

section \<open>Tool evidence recorder: the hooks (mcp-hooks.ts)\<close>

text \<open>The correlation context names the task; its bus is the execution's bus.\<close>

record McpHooksContext =
  hc_taskId :: string
  hc_contextId :: string
  hc_agentId :: string
  hc_agentName :: string
  hc_traceId :: string

record tool_call =
  toolCallId :: string
  tc_args :: jsvalue
  startTime :: int

record McpEvidenceHooks =
  hk_context :: "McpHooksContext option"
  activeToolCalls :: "(string \<times> tool_call) list"

definition new_McpEvidenceHooks :: McpEvidenceHooks where
  "new_McpEvidenceHooks = \<lparr>hk_context = None, activeToolCalls = []\<rparr>"

definition setContext :: "McpHooksContext \<Rightarrow> McpEvidenceHooks \<Rightarrow> McpEvidenceHooks" where
  "setContext ctx h = h\<lparr>hk_context := Some ctx\<rparr>"

definition clearContext :: "McpEvidenceHooks \<Rightarrow> McpEvidenceHooks" where
  "clearContext h = h\<lparr>hk_context := None, activeToolCalls := []\<rparr>"

text \<open>
  What a hook call receives and reads: the input's \<open>toolName\<close> (empty when absent),
  \<open>toolArgs\<close> and \<open>toolResult\<close>, the invocation's \<open>sessionId\<close> (empty when absent), the
  uuid \<open>randomUUID()\<close> would return, the \<open>Date.now()\<close> readings and the ISO timestamp.
\<close>

record hook_call =
  hi_toolName :: string
  hi_toolArgs :: jsvalue
  hi_toolResult :: jsvalue
  hi_sessionId :: string
  hi_uuid :: string
  hi_now :: int
  hi_now_end :: int
  hi_iso :: string

fun js_truthy :: "jsvalue \<Rightarrow> bool" where
  "js_truthy JUndefined = False"
| "js_truthy JNull = False"
| "js_truthy (JBool b) = b"
| "js_truthy (JNum n) = (n \<noteq> 0)"
| "js_truthy (JStr s) = (s \<noteq> [])"
| "js_truthy (JArr xs) = True"
| "js_truthy (JObj ps) = True"

definition tool_name :: "hook_call \<Rightarrow> string" where
  "tool_name c = (if hi_toolName c \<noteq> [] then hi_toolName c else ''unknown'')"

definition tool_args :: "hook_call \<Rightarrow> jsvalue" where
  "tool_args c = (if js_truthy (hi_toolArgs c) then hi_toolArgs c else JObj [])"

definition onPreToolUse :: "hook_call \<Rightarrow> McpEvidenceHooks \<Rightarrow> McpEvidenceHooks" where
  "onPreToolUse c h =
     h\<lparr>activeToolCalls :=
         map_set (activeToolCalls h) (hi_sessionId c @ '':'' @ tool_name c)
           \<lparr>toolCallId = hi_uuid c, tc_args = sanitize (tool_args c), startTime = hi_now c\<rparr>\<rparr>"

text \<open>\<open>toolResult instanceof Error\<close> is false for the plain data modelled here; the
  second disjunct is \<open>"error" in toolResult\<close> for a non-null object.\<close>

fun is_error_result :: "jsvalue \<Rightarrow> bool" where
  "is_error_result (JObj ps) = (map_get ps ''error'' \<noteq> None)"
| "is_error_result _ = False"

text \<open>
  \<open>onPostToolUse\<close>: the tracked record is looked up and deleted; with a bound context the
  trace artifact is built and published. Building it calls \<open>truncate\<close> twice, and a
  TypeError raised there leaves the hook before anything is published (the first
  component of the result is the error the hook throws, if any).
\<close>

definition onPostToolUse :: "hook_call \<Rightarrow> McpEvidenceHooks \<times> bus \<Rightarrow> js_error option \<times> McpEvidenceHooks \<times> bus" where
  "onPostToolUse c hb =
     (let h = fst hb; b = snd hb;
          toolName = tool_name c;
          key = hi_sessionId c @ '':'' @ toolName;
          tracked = map_get (activeToolCalls h) key;
          callId = (case tracked of
                      Some t \<Rightarrow> if toolCallId t \<noteq> [] then toolCallId t else hi_uuid c
                    | None \<Rightarrow> hi_uuid c);
          start = (case tracked of
                     Some t \<Rightarrow> if startTime t \<noteq> 0 then startTime t else hi_now c
                   | None \<Rightarrow> hi_now c);
          durationMs = hi_now_end c - start;
          h' = h\<lparr>activeToolCalls := map_delete (activeToolCalls h) key\<rparr>;
          isError = is_error_result (hi_toolResult c)
      in case hk_context h' of
           None \<Rightarrow> (None, h', b)
         | Some ctx \<Rightarrow>
             (case truncate_data JSON_stringify (sanitize (tool_args c)) of
                Inl err \<Rightarrow> (Some err, h', b)
              | Inr arguments \<Rightarrow>
                  (case truncate_data JSON_stringify (sanitize (hi_toolResult c)) of
                     Inl err \<Rightarrow> (Some err, h', b)
                   | Inr result \<Rightarrow>
                       (None, h', publishTraceArtifact (hc_taskId ctx) (hc_contextId ctx) ''trace.mcp''
                              (JObj [(''tool_call_id'', JStr callId),
                                     (''tool'', JStr toolName),
                                     (''agent_id'', JStr (hc_agentId ctx)),
                                     (''agent_name'', JStr (hc_agentName ctx)),
                                     (''trace_id'', JStr (hc_traceId ctx)),
                                     (''request'',
                                        JObj [(''method'', JStr ''tools/call''),
                                              (''params'', JObj [(''name'', JStr toolName),
                                                                 (''arguments'', arguments)])]),
                                     (''response'',
                                        JObj [(''result'', result), (''is_error'', JBool isError)]),
                                     (''metadata'',
                                        JObj [(''duration_ms'', JNum durationMs),
                                              (''timestamp'', JStr (hi_iso c)),
                                              (''source'', JStr ''mcp'')])])
                              b))))"

section \<open>Task bridge (executor.ts)\<close>

record AgentConfig =
  cfg_streaming :: bool
  cfg_cliUrl :: string
  cfg_streamArtifactChunks :: bool
  cfg_promptTimeout :: "int option"
  cfg_agentName :: string
  cfg_session :: SessionConfig

text \<open>
  \<open>copilot.streaming\<close>, \<open>copilot.cliUrl\<close> (empty when unset), \<open>features.streamArtifactChunks\<close>,
  \<open>timeouts.prompt\<close>, \<open>agentCard.name\<close> and the \<open>session\<close> block.

  The executor holds the session manager and the hooks. Before \<open>initialize\<close> has
  succeeded both are the fresh objects \<open>initialize\<close> will install.
\<close>

record CopilotExecutor =
  initialized :: bool
  sessionManager :: SessionManager
  mcpHooks :: McpEvidenceHooks

definition new_CopilotExecutor :: CopilotExecutor where
  "new_CopilotExecutor =
     \<lparr>initialized = False, sessionManager = new_SessionManager, mcpHooks = new_McpEvidenceHooks\<rparr>"

text \<open>The request: \<open>taskId\<close>, \<open>contextId\<close>, the parts of \<open>userMessage\<close>, whether a \<open>task\<close>
  record came with it, and the two metadata keys the trace id is read from (empty when
  absent).\<close>

record RequestContext =
  rc_taskId :: string
  rc_contextId :: string
  rc_userMessage :: "part list"
  rc_task :: bool
  rc_meta_trace_id :: string
  rc_meta_traceId :: string

text \<open>
  What the session runtime does while the executor waits, in the order it happens.
  In streaming mode these are the events the executor's listeners receive, the settling
  of the \<open>send()\<close> promise when it rejects, and the tool hooks the runtime calls. A field
  read with \<open>?? ""\<close> and then tested for truthiness is a string (empty when absent); a
  field whose absence matters is an option.
\<close>

datatype session_event =
    MessageDelta string
  | ReasoningDelta string
  | AssistantMessage string
  | Reasoning "string option"
  | Intent string
  | ToolExecutionStart "string option" "string option"
  | ToolExecutionProgress string
  | ToolExecutionComplete "bool option" "string option"
  | SubagentStarted "string option" "string option"
  | SubagentCompleted "string option"
  | SubagentFailed "string option" "string option"
  | SessionError "string option"
  | SessionIdle
  | SendRejected string
  | PreToolUse hook_call
  | PostToolUse hook_call

text \<open>What \<open>sendAndWait\<close> does in buffered mode: it answers (with or without content),
  it rejects, or the executor's own timer wins the race.\<close>

datatype wait_result = Responded "string option" | WaitRejected string | TimerWon

record exec_env =
  env_start :: "string option"
  env_uuid :: string
  env_session :: session_env
  env_events :: "session_event list list"
  env_wait :: wait_result

text \<open>
  \<open>env_start\<close>: the message \<open>client.start()\<close> throws with, if it throws; \<open>env_uuid\<close>: the
  uuid used for the trace id when the request carries none; \<open>env_session\<close>: what
  \<open>getOrCreate\<close> reads; \<open>env_events\<close>: what the runtime does before the prompt timer's
  deadline, one list per turn of the event loop (what it does in a row, with no
  continuation of an \<open>await\<close> running in between); \<open>env_wait\<close>: the outcome of
  \<open>sendAndWait\<close>.
\<close>

definition first_truthy :: "string list \<Rightarrow> string" where
  "first_truthy xs = (case filter (\<lambda>x. x \<noteq> []) xs of [] \<Rightarrow> [] | x # _ \<Rightarrow> x)"

text \<open>\<open>extractTraceContext(ctx).traceId\<close>.\<close>

definition extractTraceId :: "exec_env \<Rightarrow> RequestContext \<Rightarrow> string" where
  "extractTraceId env rc =
     first_truthy [rc_meta_trace_id rc, rc_meta_traceId rc, rc_contextId rc, env_uuid env]"

text \<open>\<open>name.toLowerCase().replace(/\s+/g, "-")\<close>.\<close>

definition is_whitespace :: "char \<Rightarrow> bool" where
  "is_whitespace c = (c \<in> set [CHR 0x09, CHR 0x0A, CHR 0x0B, CHR 0x0C, CHR 0x0D, CHR 0x20, CHR 0xA0])"

function replace_whitespace :: "string \<Rightarrow> string" where
  "replace_whitespace [] = []"
| "replace_whitespace (c # cs) =
     (if is_whitespace c then CHR ''-'' # replace_whitespace (dropWhile is_whitespace cs)
      else c # replace_whitespace cs)"
  by pat_completeness auto
termination
  by (relation "measure length") (auto simp: length_dropWhile_le less_Suc_eq_le)

definition agent_id :: "AgentConfig \<Rightarrow> string" where
  "agent_id cfg = replace_whitespace (toLowerCase (cfg_agentName cfg))"

text \<open>\<open>initialize\<close>: nothing when already initialized; a failing \<open>client.start()\<close> is
  rethrown with a remediation text; otherwise the hooks and the session manager are
  installed and the cleanup timer is started.\<close>

definition start_error :: "string \<Rightarrow> js_error" where
  "start_error msg =
     (if includes_str msg ''ENOENT'' \<or> includes_str msg ''not found'' \<or> includes_str msg ''spawn''
      then Error (''GitHub Copilot CLI not found. Install it with: gh extension install github/gh-copilot''
                  @ [CHR 0x0A] @ ''Then authenticate with: gh auth login'')
      else if includes_str (toLowerCase msg) ''auth'' \<or> includes_str (toLowerCase msg) ''login''
              \<or> includes_str (toLowerCase msg) ''token'' \<or> includes_str (toLowerCase msg) ''unauthorized''
      then Error (''GitHub Copilot CLI is not authenticated. Run: gh auth login''
                  @ [CHR 0x0A] @ ''Then verify with: gh copilot --version'')
      else Error (''Failed to start GitHub Copilot CLI: '' @ msg))"

definition initialize :: "AgentConfig \<Rightarrow> exec_env \<Rightarrow> CopilotExecutor \<Rightarrow> js_error + CopilotExecutor" where
  "initialize cfg env ex =
     (if initialized ex then Inr ex
      else case env_start env of
             Some msg \<Rightarrow> Inl (start_error msg)
           | None \<Rightarrow>
               Inr \<lparr>initialized = True,
                    sessionManager = startCleanup (cfg_session cfg) new_SessionManager,
                    mcpHooks = new_McpEvidenceHooks\<rparr>)"

text \<open>
  The state the streaming listeners share: the closure variables \<open>accumulatedText\<close>,
  \<open>reasoningAccumulator\<close> and \<open>timedOut\<close>, the deferred \<open>done\<close> (\<open>None\<close> while pending), the
  bus and the hooks.
\<close>

datatype settlement = Resolved | Rejected string

record run =
  accumulatedText :: string
  reasoningAccumulator :: string
  timedOut :: bool
  done_state :: "settlement option"
  run_bus :: bus
  run_hooks :: McpEvidenceHooks

text \<open>\<open>resolveDone\<close> and \<open>rejectDone\<close>: a promise settles once; later calls do nothing.\<close>

definition resolveDone :: "run \<Rightarrow> run" where
  "resolveDone s = (if done_state s = None then s\<lparr>done_state := Some Resolved\<rparr> else s)"

definition rejectDone :: "string \<Rightarrow> run \<Rightarrow> run" where
  "rejectDone msg s = (if done_state s = None then s\<lparr>done_state := Some (Rejected msg)\<rparr> else s)"

definition or_else :: "'a option \<Rightarrow> 'a \<Rightarrow> 'a" where
  "or_else x d = (case x of Some v \<Rightarrow> v | None \<Rightarrow> d)"

definition status_working :: "RequestContext \<Rightarrow> string \<Rightarrow> run \<Rightarrow> run" where
  "status_working rc msg s =
     s\<lparr>run_bus := publishStatus (rc_taskId rc) (rc_contextId rc) Working (Some msg) False (run_bus s)\<rparr>"

text \<open>The hooks as the runtime calls them; what a hook throws goes to the runtime, not
  to the executor.\<close>

definition run_pre_hook :: "hook_call \<Rightarrow> run \<Rightarrow> run" where
  "run_pre_hook c s = s\<lparr>run_hooks := onPreToolUse c (run_hooks s)\<rparr>"

definition run_post_hook :: "hook_call \<Rightarrow> run \<Rightarrow> run" where
  "run_post_hook c s =
     (case onPostToolUse c (run_hooks s, run_bus s) of
        (_, h, b) \<Rightarrow> s\<lparr>run_hooks := h, run_bus := b\<rparr>)"

text \<open>One listener per event, as subscribed in \<open>execute\<close>.\<close>

fun on_event :: "AgentConfig \<Rightarrow> RequestContext \<Rightarrow> session_event \<Rightarrow> run \<Rightarrow> run" where
  "on_event cfg rc (MessageDelta delta) s =
     (if delta \<noteq> [] then
        (let s1 = s\<lparr>accumulatedText := accumulatedText s @ delta\<rparr>
         in if cfg_streamArtifactChunks cfg
            then s1\<lparr>run_bus := publishStreamingChunk (rc_taskId rc) (rc_contextId rc)
                                  StreamArtifactId delta (run_bus s1)\<rparr>
            else s1)
      else s)"
| "on_event cfg rc (ReasoningDelta delta) s =
     (if delta \<noteq> [] then s\<lparr>reasoningAccumulator := reasoningAccumulator s @ delta\<rparr> else s)"
| "on_event cfg rc (AssistantMessage content) s =
     (if content \<noteq> [] \<and> accumulatedText s = [] then s\<lparr>accumulatedText := content\<rparr> else s)"
| "on_event cfg rc (Reasoning content) s =
     (let c = or_else content (reasoningAccumulator s)
      in if c \<noteq> []
         then s\<lparr>run_bus := publishThoughtArtifact (rc_taskId rc) (rc_contextId rc)
                              ''trace.thought'' c (run_bus s),
                reasoningAccumulator := []\<rparr>
         else s)"
| "on_event cfg rc (Intent intent) s =
     (if intent \<noteq> [] then status_working rc (''Intent: '' @ intent) s else s)"
| "on_event cfg rc (ToolExecutionStart toolName mcpToolName) s =
     status_working rc (''Executing '' @ or_else toolName (or_else mcpToolName ''unknown'') @ ''...'') s"
| "on_event cfg rc (ToolExecutionProgress msg) s =
     (if msg \<noteq> [] then status_working rc msg s else s)"
| "on_event cfg rc (ToolExecutionComplete success errMsg) s =
     (if or_else success True then status_working rc ''Tool completed'' s
      else status_working rc (''Tool error: '' @ or_else errMsg ''Unknown error'') s)"
| "on_event cfg rc (SubagentStarted agentDisplayName agentName) s =
     status_working rc (''Delegating to '' @ or_else agentDisplayName (or_else agentName ''subagent'') @ ''...'') s"
| "on_event cfg rc (SubagentCompleted agentName) s =
     status_working rc (or_else agentName ''subagent'' @ '' completed'') s"
| "on_event cfg rc (SubagentFailed agentName err) s =
     status_working rc (or_else agentName ''subagent'' @ '' failed: '' @ or_else err ''Unknown error'') s"
| "on_event cfg rc (SessionError message) s =
     (let msg = or_else message ''Session error''
      in if includes_str (toLowerCase msg) ''timeout''
         then resolveDone (s\<lparr>timedOut := True\<rparr>)
         else rejectDone msg s)"
| "on_event cfg rc SessionIdle s = resolveDone s"
| "on_event cfg rc (SendRejected msg) s =
     (if includes_str (toLowerCase msg) ''timeout''
      then resolveDone (s\<lparr>timedOut := True\<rparr>)
      else rejectDone msg s)"
| "on_event cfg rc (PreToolUse c) s = run_pre_hook c s"
| "on_event cfg rc (PostToolUse c) s = run_post_hook c s"

text \<open>The callback of the prompt timer.\<close>

definition on_timer :: "run \<Rightarrow> run" where
  "on_timer s = resolveDone (s\<lparr>timedOut := True\<rparr>)"

text \<open>
  \<open>await done\<close>: settling \<open>done\<close> only schedules the continuation of the \<open>await\<close>, and
  the listeners are removed in that continuation (the \<open>finally\<close> after \<open>await done\<close>). So the
  listeners handle every event of a turn, also those that follow the one that settled
  \<open>done\<close>; after a turn that has settled \<open>done\<close> the continuation runs and what the runtime
  does in later turns is not seen. The timer is armed before the prompt is sent: when the
  turns before its deadline have not settled \<open>done\<close>, its callback does, in a turn of its
  own.
\<close>

fun await_done :: "AgentConfig \<Rightarrow> RequestContext \<Rightarrow> session_event list list \<Rightarrow> run \<Rightarrow> run" where
  "await_done cfg rc [] s = on_timer s"
| "await_done cfg rc (turn # turns) s =
     (let s' = fold (on_event cfg rc) turn s
      in if done_state s' \<noteq> None then s' else await_done cfg rc turns s')"

text \<open>In buffered mode nothing is subscribed: of what the runtime does during
  \<open>sendAndWait\<close> only the tool hooks have an effect.\<close>

fun on_hook :: "session_event \<Rightarrow> run \<Rightarrow> run" where
  "on_hook (PreToolUse c) s = run_pre_hook c s"
| "on_hook (PostToolUse c) s = run_post_hook c s"
| "on_hook _ s = s"

definition prompt_timeout :: "AgentConfig \<Rightarrow> int" where
  "prompt_timeout cfg = or_else (cfg_promptTimeout cfg) 600000"

text \<open>What the executor asked of the session: \<open>send\<close> or \<open>sendAndWait\<close>, with the prompt.\<close>

datatype dispatch = Send handle string | SendAndWait handle string int

record outcome =
  out_executor :: CopilotExecutor
  out_bus :: bus
  out_dispatched :: "dispatch list"

text \<open>The message of a thrown value, as the \<open>catch\<close> block reads it.\<close>

fun error_message :: "js_error \<Rightarrow> string" where
  "error_message (Error msg) = msg"
| "error_message TypeError = ''TypeError''"

definition TRUNCATION_NOTE :: string where
  "TRUNCATION_NOTE = [CHR 0x0A, CHR 0x0A] @ ''---'' @ [CHR 0x0A] @ ''*Response truncated: processing time limit reached.*''"

text \<open>Step 5 of \<open>execute\<close>: the streaming branch and the buffered branch. Each returns the
  thrown message (\<open>Inl\<close>) or the text and the \<open>timedOut\<close> flag, with the run's state.\<close>

definition streaming_prompt :: "AgentConfig \<Rightarrow> exec_env \<Rightarrow> RequestContext \<Rightarrow> run \<Rightarrow> (string + string \<times> bool) \<times> run" where
  "streaming_prompt cfg env rc s0 =
     (let s = await_done cfg rc (env_events env) s0
      in case done_state s of
           Some (Rejected msg) \<Rightarrow> (Inl msg, s)
         | _ \<Rightarrow>
             (if timedOut s \<and> accumulatedText s \<noteq> []
              then (Inr (accumulatedText s @ TRUNCATION_NOTE, timedOut s), s)
              else (Inr (accumulatedText s, timedOut s), s)))"

definition buffered_prompt :: "AgentConfig \<Rightarrow> exec_env \<Rightarrow> RequestContext \<Rightarrow> run \<Rightarrow> (string + string \<times> bool) \<times> run" where
  "buffered_prompt cfg env rc s0 =
     (let s = fold on_hook (concat (env_events env)) s0
      in case env_wait env of
           Responded content \<Rightarrow> (Inr (or_else content [], timedOut s), s)
         | WaitRejected msg \<Rightarrow>
             if includes_str msg ''timeout'' then (Inr (accumulatedText s, timedOut s), s)
             else (Inl msg, s)
         | TimerWon \<Rightarrow> (Inr (accumulatedText s, timedOut s), s))"

text \<open>The \<open>catch\<close> block of \<open>execute\<close>.\<close>

definition failure_message :: "AgentConfig \<Rightarrow> string \<Rightarrow> string" where
  "failure_message cfg msg =
     (if (includes_str msg ''ECONNREFUSED'' \<or> includes_str msg ''ENOTFOUND''
          \<or> includes_str msg ''connect'' \<or> includes_str msg ''socket'') \<and> cfg_cliUrl cfg \<noteq> []
      then ''Cannot reach GitHub Copilot CLI server at '' @ cfg_cliUrl cfg @ ''. Is it running?''
      else ''Error: '' @ msg)"

definition publish_failed :: "AgentConfig \<Rightarrow> RequestContext \<Rightarrow> string \<Rightarrow> bus \<Rightarrow> bus" where
  "publish_failed cfg rc msg b =
     publishStatus (rc_taskId rc) (rc_contextId rc) Failed (Some (failure_message cfg msg)) True b @ [Finished]"

text \<open>The fallback text and step 6.\<close>

definition fallback_text :: "string \<Rightarrow> bool \<Rightarrow> string" where
  "fallback_text txt timed_out =
     (if txt \<noteq> [] then txt
      else if timed_out then ''The request timed out before a response was produced.''
      else ''No text response was returned.'')"

definition finalize :: "AgentConfig \<Rightarrow> RequestContext \<Rightarrow> string \<Rightarrow> bus \<Rightarrow> bus" where
  "finalize cfg rc txt b =
     publishStatus (rc_taskId rc) (rc_contextId rc) Completed None True
       (if cfg_streamArtifactChunks cfg
        then publishLastChunkMarker (rc_taskId rc) (rc_contextId rc) StreamArtifactId txt b
        else publishFinalArtifact (rc_taskId rc) (rc_contextId rc) txt b)
     @ [Finished]"

text \<open>The \<open>finally\<close> block of \<open>execute\<close>.\<close>

definition cleanup_execution :: "string \<Rightarrow> CopilotExecutor \<Rightarrow> CopilotExecutor" where
  "cleanup_execution taskId ex =
     ex\<lparr>sessionManager := untrackTask taskId (sessionManager ex),
        mcpHooks := clearContext (mcpHooks ex)\<rparr>"

text \<open>The pieces of \<open>execute\<close>: the context bound to the hooks, the Submitted task event
  (only when no task record came with the request) and the Working status, the state the
  prompt starts from, the prompt in the configured mode, and the \<open>try\<close>'s two ends
  (finalize, or the \<open>catch\<close> block).\<close>

definition execution_context :: "AgentConfig \<Rightarrow> exec_env \<Rightarrow> RequestContext \<Rightarrow> McpHooksContext" where
  "execution_context cfg env rc =
     \<lparr>hc_taskId = rc_taskId rc, hc_contextId = rc_contextId rc,
      hc_agentId = agent_id cfg, hc_agentName = cfg_agentName cfg,
      hc_traceId = extractTraceId env rc\<rparr>"

definition announce :: "RequestContext \<Rightarrow> bus \<Rightarrow> bus" where
  "announce rc b0 =
     publishStatus (rc_taskId rc) (rc_contextId rc) Working (Some ''Processing request...'') False
       (if \<not> rc_task rc
        then b0 @ [TaskEvent (rc_taskId rc) (rc_contextId rc) (rc_userMessage rc)]
        else b0)"

definition initial_run :: "AgentConfig \<Rightarrow> exec_env \<Rightarrow> RequestContext \<Rightarrow> CopilotExecutor \<Rightarrow> bus \<Rightarrow> run" where
  "initial_run cfg env rc ex b0 =
     \<lparr>accumulatedText = [], reasoningAccumulator = [], timedOut = False, done_state = None,
      run_bus = announce rc b0,
      run_hooks = setContext (execution_context cfg env rc) (mcpHooks ex)\<rparr>"

definition run_prompt :: "AgentConfig \<Rightarrow> exec_env \<Rightarrow> RequestContext \<Rightarrow> run \<Rightarrow> (string + string \<times> bool) \<times> run" where
  "run_prompt cfg env rc s0 =
     (if cfg_streaming cfg then streaming_prompt cfg env rc s0 else buffered_prompt cfg env rc s0)"

definition sent_prompt :: "AgentConfig \<Rightarrow> RequestContext \<Rightarrow> acquired \<Rightarrow> dispatch" where
  "sent_prompt cfg rc acq =
     (if cfg_streaming cfg then Send (acq_session acq) (extractText (rc_userMessage rc))
      else SendAndWait (acq_session acq) (extractText (rc_userMessage rc)) (prompt_timeout cfg))"

definition conclude :: "AgentConfig \<Rightarrow> RequestContext \<Rightarrow> string + string \<times> bool \<Rightarrow> bus \<Rightarrow> bus" where
  "conclude cfg rc r b =
     (case r of
        Inl msg \<Rightarrow> publish_failed cfg rc msg b
      | Inr (txt, timed_out) \<Rightarrow> finalize cfg rc (fallback_text txt timed_out) b)"

text \<open>
  \<open>execute\<close>. \<open>initialize\<close> and \<open>setContext\<close> run before the \<open>try\<close>: a failing
  \<open>initialize\<close> is the only error that leaves \<open>execute\<close> (\<open>Inl\<close>). Inside the \<open>try\<close>: the
  announcement, the session, the tracking entry, the prompt, then finalize; the \<open>catch\<close>
  publishes Failed; the \<open>finally\<close> removes the tracking entry and clears the hooks'
  context.
\<close>

definition execute :: "AgentConfig \<Rightarrow> exec_env \<Rightarrow> RequestContext \<Rightarrow> CopilotExecutor \<Rightarrow> bus \<Rightarrow> js_error + outcome" where
  "execute cfg env rc ex0 b0 =
     (case initialize cfg env ex0 of
        Inl err \<Rightarrow> Inl err
      | Inr ex1 \<Rightarrow>
          (case getOrCreate (cfg_session cfg) (env_session env) (rc_contextId rc) (sessionManager ex1) of
             (Inl err, m1) \<Rightarrow>
               Inr \<lparr>out_executor =
                      cleanup_execution (rc_taskId rc)
                        (ex1\<lparr>sessionManager := m1,
                             mcpHooks := setContext (execution_context cfg env rc) (mcpHooks ex1)\<rparr>),
                    out_bus = publish_failed cfg rc (error_message err) (announce rc b0),
                    out_dispatched = []\<rparr>
           | (Inr acq, m1) \<Rightarrow>
               (let r = run_prompt cfg env rc (initial_run cfg env rc ex1 b0)
                in Inr \<lparr>out_executor =
                          cleanup_execution (rc_taskId rc)
                            (ex1\<lparr>sessionManager := trackTask (rc_taskId rc) (acq_sessionId acq) m1,
                                 mcpHooks := run_hooks (snd r)\<rparr>),
                        out_bus = conclude cfg rc (fst r) (run_bus (snd r)),
                        out_dispatched = [sent_prompt cfg rc acq]\<rparr>)))"

text \<open>\<open>cancelTask\<close>: the tracked session is only looked up for the log; a Canceled status
  with an empty contextId is published and the bus is finished.\<close>

definition cancelTask :: "string \<Rightarrow> CopilotExecutor \<Rightarrow> bus \<Rightarrow> CopilotExecutor \<times> bus" where
  "cancelTask taskId ex b = (ex, publishStatus taskId [] Canceled None True b @ [Finished])"

section \<open>Vocabulary of the statements\<close>

text \<open>The three things that settle the completion signal before the timer does: a
  session-error, session-idle, and a rejection of \<open>send()\<close>.\<close>

fun settles :: "session_event \<Rightarrow> bool" where
  "settles (SessionError m) = True"
| "settles SessionIdle = True"
| "settles (SendRejected m) = True"
| "settles _ = False"

fun is_post_hook :: "session_event \<Rightarrow> bool" where
  "is_post_hook (PostToolUse c) = True"
| "is_post_hook _ = False"

text \<open>The text accumulated from a run of events: the deltas appended in order, and a
  complete assistant message taken only while nothing has accumulated.\<close>

fun text_after :: "string \<Rightarrow> session_event list \<Rightarrow> string" where
  "text_after acc [] = acc"
| "text_after acc (MessageDelta delta # es) = text_after (acc @ delta) es"
| "text_after acc (AssistantMessage content # es) =
     text_after (if content \<noteq> [] \<and> acc = [] then content else acc) es"
| "text_after acc (_ # es) = text_after acc es"

text \<open>The text published after a timeout: the accumulated text with the truncation
  notice, or the fixed timeout message when nothing accumulated.\<close>

definition timeout_text :: "string \<Rightarrow> string" where
  "timeout_text acc =
     (if acc \<noteq> [] then acc @ TRUNCATION_NOTE
      else ''The request timed out before a response was produced.'')"

fun is_failed :: "bus_event \<Rightarrow> bool" where
  "is_failed (StatusUpdate u) = (su_state u = Failed)"
| "is_failed _ = False"

fun artifacts :: "bus \<Rightarrow> artifact_update list" where
  "artifacts [] = []"
| "artifacts (ArtifactUpdate a # es) = a # artifacts es"
| "artifacts (_ # es) = artifacts es"

definition completed_status :: "RequestContext \<Rightarrow> bus_event" where
  "completed_status rc =
     StatusUpdate \<lparr>su_taskId = rc_taskId rc, su_contextId = rc_contextId rc,
                   su_state = Completed, su_message = None, su_final = True\<rparr>"

definition failed_status :: "RequestContext \<Rightarrow> string \<Rightarrow> bus_event" where
  "failed_status rc msg =
     StatusUpdate \<lparr>su_taskId = rc_taskId rc, su_contextId = rc_contextId rc,
                   su_state = Failed, su_message = Some msg, su_final = True\<rparr>"

text \<open>The response artifact of step 6: the buffered artifact, or with chunking the
  last-chunk marker on the execution's stream id.\<close>

definition response_artifact :: "AgentConfig \<Rightarrow> RequestContext \<Rightarrow> string \<Rightarrow> artifact_update" where
  "response_artifact cfg rc txt =
     \<lparr>au_taskId = rc_taskId rc, au_contextId = rc_contextId rc,
      au_append = cfg_streamArtifactChunks cfg, au_lastChunk = True,
      au_artifactId = (if cfg_streamArtifactChunks cfg then StreamArtifactId else FreshId ''response-''),
      au_name = ''response'', au_part = TextPart txt\<rparr>"

section \<open>Properties\<close>

subsection \<open>Text extraction\<close>

lemma map_text_filter: "map part_text (filter is_text ps) = text_parts ps"
  by (induction ps rule: text_parts.induct) simp_all

text \<open>
  C9, as stated: the prompt is the plain concatenation of the text parts. It is not:
  \<open>extractText\<close> joins them with a newline, so two text parts \<open>a\<close> and \<open>b\<close> (with a
  file part between them) give \<open>a\<newline>b\<close>, while their concatenation is \<open>ab\<close>.
\<close>

theorem extractText_counterexample:
  "extractText [TextPart ''a'', FilePart ''f'', TextPart ''b''] = [CHR ''a'', CHR 0x0A, CHR ''b'']
   \<and> concatenated_text [TextPart ''a'', FilePart ''f'', TextPart ''b''] = ''ab''"
  by (simp add: extractText_def concatenated_text_def)

text \<open>
  C9, amended: for every inbound message the prompt is exactly the message's text-typed
  parts, in their original order, joined with one newline between consecutive parts;
  non-text parts contribute nothing.
\<close>

theorem extractText_joined: "extractText parts = join [CHR 0x0A] (text_parts parts)"
  by (simp add: extractText_def map_text_filter)

subsection \<open>Truncation\<close>

lemma length_escape_char: "1 \<le> length (escape_char c)"
  by (simp add: escape_char_def)

lemma length_concat_escape: "length s \<le> length (concat (map escape_char s))"
proof (induction s)
  case Nil
  show ?case by simp
next
  case (Cons c s)
  with length_escape_char [of c] show ?case by simp
qed

lemma length_quote_json: "length s + 2 \<le> length (quote_json s)"
  using length_concat_escape [of s] by (simp add: quote_json_def)

lemma concat_replicate_single: "concat (replicate n [c]) = replicate n c"
  by (induction n) simp_all

lemma quote_json_replicate_a:
  "quote_json (replicate n CHR ''a'') = CHR 0x22 # replicate n CHR ''a'' @ [CHR 0x22]"
  by (simp add: quote_json_def escape_char_def concat_replicate_single)

lemma truncate_long_string:
  "MAX_DATA_SIZE < length s \<Longrightarrow>
   truncate_data stringify (JStr s) =
     Inr (JStr (take MAX_DATA_SIZE s @ ''... [truncated, total '' @ show_nat (length s) @ '' chars]''))"
  by (simp add: truncate_data_def)

lemma truncate_not_long:
  "\<not> long_string data \<Longrightarrow> truncate_data stringify data = truncate_json stringify data"
  by (cases data) (simp_all add: truncate_data_def)

lemma truncate_json_marker:
  "safeJson stringify data = Some json \<Longrightarrow> MAX_DATA_SIZE < length json \<Longrightarrow>
   truncate_json stringify data = Inr (truncation_marker json)"
  by (simp add: truncate_json_def)

lemma truncate_json_unchanged:
  "safeJson stringify data = Some json \<Longrightarrow> length json \<le> MAX_DATA_SIZE \<Longrightarrow>
   truncate_json stringify data = Inr data"
  by (simp add: truncate_json_def)

lemma safeJson_JSON_stringify: "safeJson JSON_stringify data = serialize data"
  by (simp add: safeJson_def JSON_stringify_def split: option.splits)

lemma serialized_string_longer:
  "serialize (JStr s) = Some json \<Longrightarrow> length s < length json"
  using length_quote_json [of s] by auto

lemma small_json_not_long_string:
  assumes "serialize data = Some json" and "length json \<le> MAX_DATA_SIZE"
  shows "\<not> long_string data"
proof (cases data)
  case (JStr s)
  with assms serialized_string_longer [of s json] show ?thesis by simp
qed simp_all

text \<open>
  C5, as stated: every payload whose serialized size exceeds the ceiling becomes the
  marker object. A string of 100001 characters serializes to 100003 characters, above
  the ceiling, and \<open>truncate_data\<close> returns a string (the first 100000 characters and a
  notice), not a marker object.
\<close>

theorem truncate_long_string_counterexample:
  "serialize (JStr (replicate 100001 CHR ''a'')) = Some (CHR 0x22 # replicate 100001 CHR ''a'' @ [CHR 0x22])
   \<and> MAX_DATA_SIZE < length (CHR 0x22 # replicate 100001 CHR ''a'' @ [CHR 0x22])
   \<and> truncate_data JSON_stringify (JStr (replicate 100001 CHR ''a'')) =
       Inr (JStr (replicate 100000 CHR ''a'' @ ''... [truncated, total 100001 chars]''))"
proof (intro conjI)
  show "serialize (JStr (replicate 100001 CHR ''a'')) = Some (CHR 0x22 # replicate 100001 CHR ''a'' @ [CHR 0x22])"
    by (simp add: quote_json_replicate_a)
  show "MAX_DATA_SIZE < length (CHR 0x22 # replicate 100001 CHR ''a'' @ [CHR 0x22])"
    by (simp add: MAX_DATA_SIZE_def)
  have n: "show_nat 100001 = ''100001''"
    by (simp add: show_nat.simps digit_char_def)
  show "truncate_data JSON_stringify (JStr (replicate 100001 CHR ''a'')) =
       Inr (JStr (replicate 100000 CHR ''a'' @ ''... [truncated, total 100001 chars]''))"
    by (simp add: truncate_data_def MAX_DATA_SIZE_def n)
qed

text \<open>
  C5, amended. With the ceiling \<open>MAX_DATA_SIZE = 100000\<close>:
  a string payload longer than the ceiling is replaced by its first 100000 characters
  followed by the notice \<open>... [truncated, total N chars]\<close>;
  any other payload whose serialized size exceeds the ceiling is replaced by the marker
  object \<open>{_truncated: true, _original_size, preview}\<close>, the preview being the first
  100000 characters of the serialization (so at most the ceiling);
  every payload whose serialized size is at or under the ceiling is returned unchanged.
\<close>

theorem truncate_by_size:
  "(data = JStr s \<and> MAX_DATA_SIZE < length s \<longrightarrow>
      truncate_data JSON_stringify data =
        Inr (JStr (take MAX_DATA_SIZE s @ ''... [truncated, total '' @ show_nat (length s) @ '' chars]'')))
   \<and> (\<not> long_string data \<and> serialize data = Some json \<and> MAX_DATA_SIZE < length json \<longrightarrow>
      truncate_data JSON_stringify data =
        Inr (JObj [(''_truncated'', JBool True),
                   (''_original_size'', JNum (int (length json))),
                   (''preview'', JStr (take MAX_DATA_SIZE json))])
      \<and> length (take MAX_DATA_SIZE json) \<le> MAX_DATA_SIZE)
   \<and> (serialize data = Some json \<and> length json \<le> MAX_DATA_SIZE \<longrightarrow>
      truncate_data JSON_stringify data = Inr data)"
proof (intro conjI impI)
  assume "data = JStr s \<and> MAX_DATA_SIZE < length s"
  then show "truncate_data JSON_stringify data =
        Inr (JStr (take MAX_DATA_SIZE s @ ''... [truncated, total '' @ show_nat (length s) @ '' chars]''))"
    by (simp add: truncate_long_string)
next
  assume h: "\<not> long_string data \<and> serialize data = Some json \<and> MAX_DATA_SIZE < length json"
  then have "truncate_data JSON_stringify data = truncate_json JSON_stringify data"
    by (simp add: truncate_not_long)
  with h show "truncate_data JSON_stringify data =
        Inr (JObj [(''_truncated'', JBool True),
                   (''_original_size'', JNum (int (length json))),
                   (''preview'', JStr (take MAX_DATA_SIZE json))])"
    by (simp add: truncate_json_marker safeJson_JSON_stringify truncation_marker_def)
next
  show "length (take MAX_DATA_SIZE json) \<le> MAX_DATA_SIZE"
    by simp
next
  assume h: "serialize data = Some json \<and> length json \<le> MAX_DATA_SIZE"
  then have "\<not> long_string data"
    by (simp add: small_json_not_long_string)
  then have "truncate_data JSON_stringify data = truncate_json JSON_stringify data"
    by (simp add: truncate_not_long)
  with h show "truncate_data JSON_stringify data = Inr data"
    by (simp add: truncate_json_unchanged safeJson_JSON_stringify)
qed

theorem truncate_by_size_witness:
  "truncate_data JSON_stringify (JStr (replicate 100000 CHR ''a'')) =
     Inr (JObj [(''_truncated'', JBool True),
                (''_original_size'', JNum 100002),
                (''preview'', JStr (CHR 0x22 # replicate 99999 CHR ''a''))])
   \<and> truncate_data JSON_stringify (JObj [(''q'', JStr ''x'')]) = Inr (JObj [(''q'', JStr ''x'')])"
proof (intro conjI)
  have s: "serialize (JStr (replicate 100000 CHR ''a'')) = Some (CHR 0x22 # replicate 100000 CHR ''a'' @ [CHR 0x22])"
    by (simp add: quote_json_replicate_a)
  have "\<not> long_string (JStr (replicate 100000 CHR ''a''))"
    by (simp add: MAX_DATA_SIZE_def)
  moreover have "MAX_DATA_SIZE < length (CHR 0x22 # replicate 100000 CHR ''a'' @ [CHR 0x22])"
    by (simp add: MAX_DATA_SIZE_def)
  ultimately show "truncate_data JSON_stringify (JStr (replicate 100000 CHR ''a'')) =
     Inr (JObj [(''_truncated'', JBool True),
                (''_original_size'', JNum 100002),
                (''preview'', JStr (CHR 0x22 # replicate 99999 CHR ''a''))])"
    using s truncate_by_size [of "JStr (replicate 100000 CHR ''a'')" "replicate 100000 CHR ''a''"
        "CHR 0x22 # replicate 100000 CHR ''a'' @ [CHR 0x22]"]
    by (simp add: MAX_DATA_SIZE_def)
next
  have s: "serialize (JObj [(''q'', JStr ''x'')]) = Some (''{'' @ quote_json ''q'' @ '':'' @ quote_json ''x'' @ ''}'')"
    by simp
  have "length (''{'' @ quote_json ''q'' @ '':'' @ quote_json ''x'' @ ''}'') \<le> MAX_DATA_SIZE"
    by (simp add: quote_json_def escape_char_def MAX_DATA_SIZE_def)
  with s show "truncate_data JSON_stringify (JObj [(''q'', JStr ''x'')]) = Inr (JObj [(''q'', JStr ''x'')])"
    using truncate_by_size [of "JObj [(''q'', JStr ''x'')]" "[]"
        "''{'' @ quote_json ''q'' @ '':'' @ quote_json ''x'' @ ''}''"]
    by simp
qed

subsection \<open>Sanitization\<close>

text \<open>
  C6: every field that is not sensitive is returned as it was. The code loses one: an
  own property named \<open>__proto__\<close> (as \<open>JSON.parse\<close> creates it) is assigned with
  \<open>out[key] = ...\<close>, which reaches the prototype accessor and creates no property, so
  the field is absent from the result. The other fields are treated as the claim says.
\<close>

theorem sanitize_drops_proto_field:
  "sanitize (JObj [(''q'', JStr ''x''), (''__proto__'', JStr ''y''), (''Token'', JStr ''abc'')])
     = JObj [(''q'', JStr ''x''), (''Token'', JStr ''<redacted>'')]"
  by code_simp

subsection \<open>Session registry\<close>

lemma map_get_set_same: "map_get (map_set ps k v) k = Some v"
  by (induction ps) auto

lemma map_get_set_other: "k' \<noteq> k \<Longrightarrow> map_get (map_set ps k v) k' = map_get ps k'"
  by (induction ps) auto

lemma map_get_delete_same: "map_get (map_delete ps k) k = None"
  by (induction ps) auto

lemma map_get_delete_other: "k' \<noteq> k \<Longrightarrow> map_get (map_delete ps k) k' = map_get ps k'"
  by (induction ps) auto

lemma map_get_delete_None: "map_get ps k' = None \<Longrightarrow> map_get (map_delete ps k) k' = None"
  by (induction ps) auto

lemma registry_ok_new: "registry_ok new_SessionManager"
  by (simp add: registry_ok_def new_SessionManager_def)

lemma registry_ok_destroySession: "registry_ok m \<Longrightarrow> registry_ok (destroySession r c m)"
  by (simp add: registry_ok_def destroySession_def Let_def map_get_delete_None split: option.splits)

lemma registry_ok_create_new: "registry_ok m \<Longrightarrow> registry_ok (snd (create_new env c m))"
  by (simp add: registry_ok_def create_new_def Let_def map_get_set_other split: sum.splits)

lemma registry_ok_getOrCreate: "registry_ok m \<Longrightarrow> registry_ok (snd (getOrCreate cfg env c m))"
  by (simp add: getOrCreate_def registry_ok_create_new registry_ok_destroySession split: option.splits)
    (auto simp: registry_ok_def map_get_set_other)

lemma registry_ok_cleanup_entries: "registry_ok m \<Longrightarrow> registry_ok (cleanup_entries t now es m)"
  by (induction es arbitrary: m) (auto simp: registry_ok_def map_get_delete_None)

lemma registry_ok_cleanup_tick: "registry_ok m \<Longrightarrow> registry_ok (cleanup_tick cfg now m)"
  by (simp add: cleanup_tick_def registry_ok_cleanup_entries)

lemma registry_ok_shutdown_entries: "registry_ok m \<Longrightarrow> registry_ok (shutdown_entries es m)"
  by (induction es arbitrary: m) (auto simp: registry_ok_def map_get_delete_None)

lemma registry_ok_shutdown: "registry_ok m \<Longrightarrow> registry_ok (shutdown m)"
  using registry_ok_shutdown_entries [of "m\<lparr>cleanupTimer := False\<rparr>" "contextSessions m"]
  by (simp add: shutdown_def registry_ok_def)

lemma registry_ok_tasks:
  "registry_ok m \<Longrightarrow> registry_ok (trackTask t s m) \<and> registry_ok (untrackTask t m) \<and> registry_ok (startCleanup cfg m)"
  by (simp add: registry_ok_def trackTask_def untrackTask_def startCleanup_def)

lemma create_new_result:
  "create_new env c m = (Inr r, m') \<Longrightarrow> c \<noteq> [] \<Longrightarrow>
   \<exists>e. map_get (contextSessions m') c = Some e \<and> sessionId e = acq_sessionId r \<and> session e = acq_session r"
  by (auto simp: create_new_def Let_def map_get_set_same split: sum.splits)

lemma getOrCreate_entry:
  assumes "getOrCreate cfg env c m = (Inr r, m')" and "c \<noteq> []"
  shows "\<exists>e. map_get (contextSessions m') c = Some e \<and> sessionId e = acq_sessionId r \<and> session e = acq_session r"
proof (cases "reuseByContext cfg")
  case False
  with assms show ?thesis by (simp add: getOrCreate_def create_new_result)
next
  case True
  show ?thesis
  proof (cases "map_get (contextSessions m) c")
    case None
    with assms True show ?thesis by (simp add: getOrCreate_def create_new_result)
  next
    case (Some existing)
    show ?thesis
    proof (cases "now_age env - createdAt existing < ttl_ms cfg")
      case True
      with assms Some \<open>reuseByContext cfg\<close> show ?thesis
        by (auto simp: getOrCreate_def map_get_set_same)
    next
      case False
      with assms Some \<open>reuseByContext cfg\<close> show ?thesis
        by (simp add: getOrCreate_def create_new_result)
    qed
  qed
qed

text \<open>
  C3: with reuse enabled, a second \<open>getOrCreate(c)\<close> made while the entry of \<open>c\<close> is
  younger than the TTL (age measured from \<open>createdAt\<close>) returns the session of the first
  call with \<open>isNew = false\<close>, creates no session and destroys none, and sets the entry's
  \<open>lastUsed\<close> to the current time; nothing else in the registry changes.
\<close>

theorem getOrCreate_reuse_within_ttl:
  assumes ok: "registry_ok m"
    and reuse: "reuseByContext cfg"
    and first: "getOrCreate cfg env1 c m = (Inr r1, m1)"
    and entry: "map_get (contextSessions m1) c = Some e"
    and fresh: "now_age env2 - createdAt e < ttl_ms cfg"
  shows "getOrCreate cfg env2 c m1 =
           (Inr \<lparr>acq_sessionId = acq_sessionId r1, acq_session = acq_session r1, isNew = False\<rparr>,
            m1\<lparr>contextSessions := map_set (contextSessions m1) c (e\<lparr>lastUsed := now_reuse env2\<rparr>)\<rparr>)
         \<and> sdk_created (snd (getOrCreate cfg env2 c m1)) = sdk_created m1
         \<and> sdk_destroyed (snd (getOrCreate cfg env2 c m1)) = sdk_destroyed m1
         \<and> map_get (contextSessions (snd (getOrCreate cfg env2 c m1))) c = Some (e\<lparr>lastUsed := now_reuse env2\<rparr>)"
proof -
  have "registry_ok m1"
    using registry_ok_getOrCreate [OF ok, of cfg env1 c] first by simp
  with entry have ne: "c \<noteq> []"
    by (auto simp: registry_ok_def)
  from getOrCreate_entry [OF first ne] entry
  have same: "sessionId e = acq_sessionId r1" "session e = acq_session r1"
    by auto
  have call: "getOrCreate cfg env2 c m1 =
           (Inr \<lparr>acq_sessionId = acq_sessionId r1, acq_session = acq_session r1, isNew = False\<rparr>,
            m1\<lparr>contextSessions := map_set (contextSessions m1) c (e\<lparr>lastUsed := now_reuse env2\<rparr>)\<rparr>)"
    using reuse ne entry fresh same by (simp add: getOrCreate_def)
  then show ?thesis
    by (simp add: map_get_set_same)
qed

theorem getOrCreate_reuse_within_ttl_witness:
  "getOrCreate \<lparr>reuseByContext = True, ttl = None, cleanupInterval = None\<rparr>
     \<lparr>now_age = 2000, now_reuse = 2001, destroy_rejects = False,
      create_result = Inr \<lparr>cs_handle = 2, cs_sessionId = Some ''s2''\<rparr>,
      now_id = 2002, now_createdAt = 2002, now_lastUsed = 2002\<rparr>
     ''ctx-1''
     \<lparr>contextSessions = [(''ctx-1'', \<lparr>sessionId = ''s1'', session = 1, createdAt = 1000, lastUsed = 1000\<rparr>)],
      taskSessions = [], cleanupTimer = False, sdk_created = [1], sdk_destroyed = [], warnings = 0\<rparr>
   = (Inr \<lparr>acq_sessionId = ''s1'', acq_session = 1, isNew = False\<rparr>,
      \<lparr>contextSessions = [(''ctx-1'', \<lparr>sessionId = ''s1'', session = 1, createdAt = 1000, lastUsed = 2001\<rparr>)],
       taskSessions = [], cleanupTimer = False, sdk_created = [1], sdk_destroyed = [], warnings = 0\<rparr>)"
  using getOrCreate_reuse_within_ttl
    [of new_SessionManager
        "\<lparr>reuseByContext = True, ttl = None, cleanupInterval = None\<rparr>"
        "\<lparr>now_age = 1000, now_reuse = 1000, destroy_rejects = False,
          create_result = Inr \<lparr>cs_handle = 1, cs_sessionId = Some ''s1''\<rparr>,
          now_id = 1000, now_createdAt = 1000, now_lastUsed = 1000\<rparr>"
        "''ctx-1''"
        "\<lparr>acq_sessionId = ''s1'', acq_session = 1, isNew = True\<rparr>"
        "\<lparr>contextSessions = [(''ctx-1'', \<lparr>sessionId = ''s1'', session = 1, createdAt = 1000, lastUsed = 1000\<rparr>)],
          taskSessions = [], cleanupTimer = False, sdk_created = [1], sdk_destroyed = [], warnings = 0\<rparr>"
        "\<lparr>sessionId = ''s1'', session = 1, createdAt = 1000, lastUsed = 1000\<rparr>"
        "\<lparr>now_age = 2000, now_reuse = 2001, destroy_rejects = False,
          create_result = Inr \<lparr>cs_handle = 2, cs_sessionId = Some ''s2''\<rparr>,
          now_id = 2002, now_createdAt = 2002, now_lastUsed = 2002\<rparr>"]
  by (simp add: registry_ok_new getOrCreate_def create_new_def new_session_id_def
      new_SessionManager_def ttl_ms_def)

text \<open>
  With reuse enabled, a call for a context whose entry has reached the TTL destroys the
  prior session once (a rejection of \<open>destroy()\<close> is swallowed), creates one session,
  stores it and returns it with the id the runtime gave it.
\<close>

lemma getOrCreate_expired_with_reuse:
  assumes ok: "registry_ok m"
    and reuse: "reuseByContext cfg"
    and entry: "map_get (contextSessions m) c = Some e"
    and expired: "ttl_ms cfg \<le> now_age env - createdAt e"
    and created: "create_result env = Inr cs"
  shows "\<exists>r m'. getOrCreate cfg env c m = (Inr r, m')
           \<and> isNew r \<and> acq_session r = cs_handle cs
           \<and> acq_sessionId r = new_session_id env cs
           \<and> sdk_destroyed m' = sdk_destroyed m @ [session e]
           \<and> sdk_created m' = sdk_created m @ [cs_handle cs]
           \<and> map_get (contextSessions m') c =
                Some \<lparr>sessionId = new_session_id env cs, session = cs_handle cs,
                      createdAt = now_createdAt env, lastUsed = now_lastUsed env\<rparr>"
proof -
  from ok entry have ne: "c \<noteq> []"
    by (auto simp: registry_ok_def)
  have "getOrCreate cfg env c m = create_new env c (destroySession (destroy_rejects env) c m)"
    using reuse ne entry expired by (simp add: getOrCreate_def)
  then show ?thesis
    using ne entry created
    by (simp add: create_new_def destroySession_def Let_def map_get_set_same)
qed

text \<open>
  C4: for every context with an existing entry, a \<open>getOrCreate\<close> after the TTL has elapsed
  returns a new session and runs the prior entry's destroy path exactly once. The code
  does not when reuse is disabled: the expiry check and \<open>destroySession\<close> sit inside
  \<open>if (session.reuseByContext && contextId)\<close>, while the entry is stored for every
  non-empty context. Two calls for \<open>ctx-1\<close>, the second 5000 ms after the first with a
  TTL of 1000 ms: the second call overwrites the entry of session 1 with session 2 and
  \<open>destroy()\<close> is never called on session 1, which the registry no longer knows.
\<close>

theorem getOrCreate_without_reuse_never_destroys:
  "getOrCreate \<lparr>reuseByContext = False, ttl = Some 1000, cleanupInterval = None\<rparr>
     \<lparr>now_age = 0, now_reuse = 0, destroy_rejects = False,
      create_result = Inr \<lparr>cs_handle = 1, cs_sessionId = Some ''s1''\<rparr>,
      now_id = 0, now_createdAt = 0, now_lastUsed = 0\<rparr>
     ''ctx-1'' new_SessionManager
   = (Inr \<lparr>acq_sessionId = ''s1'', acq_session = 1, isNew = True\<rparr>,
      \<lparr>contextSessions = [(''ctx-1'', \<lparr>sessionId = ''s1'', session = 1, createdAt = 0, lastUsed = 0\<rparr>)],
       taskSessions = [], cleanupTimer = False, sdk_created = [1], sdk_destroyed = [], warnings = 0\<rparr>)
   \<and> getOrCreate \<lparr>reuseByContext = False, ttl = Some 1000, cleanupInterval = None\<rparr>
     \<lparr>now_age = 5000, now_reuse = 5000, destroy_rejects = False,
      create_result = Inr \<lparr>cs_handle = 2, cs_sessionId = Some ''s2''\<rparr>,
      now_id = 5000, now_createdAt = 5000, now_lastUsed = 5000\<rparr>
     ''ctx-1''
     \<lparr>contextSessions = [(''ctx-1'', \<lparr>sessionId = ''s1'', session = 1, createdAt = 0, lastUsed = 0\<rparr>)],
      taskSessions = [], cleanupTimer = False, sdk_created = [1], sdk_destroyed = [], warnings = 0\<rparr>
   = (Inr \<lparr>acq_sessionId = ''s2'', acq_session = 2, isNew = True\<rparr>,
      \<lparr>contextSessions = [(''ctx-1'', \<lparr>sessionId = ''s2'', session = 2, createdAt = 5000, lastUsed = 5000\<rparr>)],
       taskSessions = [], cleanupTimer = False, sdk_created = [1, 2], sdk_destroyed = [], warnings = 0\<rparr>)"
  by (simp add: getOrCreate_def create_new_def new_session_id_def new_SessionManager_def Let_def)

text \<open>
  C10: a call with the empty contextId never takes the reuse branch and stores nothing.
  It goes straight to \<open>createSession\<close>: when that succeeds the call returns the new
  session with \<open>isNew = true\<close>, when it rejects the call rejects; either way the
  context-to-session map is unchanged and no session is destroyed.
\<close>

theorem getOrCreate_empty_context:
  "getOrCreate cfg env [] m =
     (case create_result env of
        Inl err \<Rightarrow> (Inl err, m)
      | Inr cs \<Rightarrow>
          (Inr \<lparr>acq_sessionId = new_session_id env cs, acq_session = cs_handle cs, isNew = True\<rparr>,
           m\<lparr>sdk_created := sdk_created m @ [cs_handle cs]\<rparr>))
   \<and> contextSessions (snd (getOrCreate cfg env [] m)) = contextSessions m
   \<and> sdk_destroyed (snd (getOrCreate cfg env [] m)) = sdk_destroyed m"
  by (simp add: getOrCreate_def create_new_def Let_def split: sum.splits)

subsection \<open>Task bridge: the completion signal\<close>

lemma done_state_run_post_hook: "done_state (run_post_hook c s) = done_state s"
  by (simp add: run_post_hook_def split: prod.splits)

lemma done_state_on_event: "\<not> settles e \<Longrightarrow> done_state (on_event cfg rc e s) = done_state s"
  by (cases e) (simp_all add: Let_def status_working_def run_pre_hook_def done_state_run_post_hook)

lemma await_done_settles: "done_state (await_done cfg rc turns s) \<noteq> None"
  by (induction turns arbitrary: s) (simp_all add: on_timer_def resolveDone_def Let_def)

lemma done_state_fold:
  "\<forall>e\<in>set evs. \<not> settles e \<Longrightarrow> done_state (fold (on_event cfg rc) evs s) = done_state s"
  by (induction evs arbitrary: s) (simp_all add: done_state_on_event)

lemma done_state_kept:
  "done_state s \<noteq> None \<Longrightarrow> done_state (on_event cfg rc e s) = done_state s"
  by (cases e)
    (auto simp: Let_def status_working_def run_pre_hook_def done_state_run_post_hook
      resolveDone_def rejectDone_def)

lemma done_state_fold_kept:
  "done_state s \<noteq> None \<Longrightarrow> done_state (fold (on_event cfg rc) evs s) = done_state s"
  by (induction evs arbitrary: s) (simp_all add: done_state_kept)

lemma await_done_append:
  "\<forall>e\<in>set (concat before). \<not> settles e \<Longrightarrow> done_state s = None \<Longrightarrow>
   await_done cfg rc (before @ rest) s = await_done cfg rc rest (fold (on_event cfg rc) (concat before) s)"
proof (induction before arbitrary: s)
  case Nil
  show ?case by simp
next
  case (Cons turn before)
  have "done_state (fold (on_event cfg rc) turn s) = None"
    using Cons.prems by (simp add: done_state_fold)
  with Cons show ?case
    by (simp add: Let_def)
qed

lemma await_done_timer:
  "\<forall>e\<in>set (concat turns). \<not> settles e \<Longrightarrow> done_state s = None \<Longrightarrow>
   await_done cfg rc turns s = on_timer (fold (on_event cfg rc) (concat turns) s)"
  using await_done_append [of turns s cfg rc "[]"] by simp

subsection \<open>What the listeners change\<close>

lemma text_run_post_hook: "accumulatedText (run_post_hook c s) = accumulatedText s"
  by (simp add: run_post_hook_def split: prod.splits)

lemma timedOut_run_post_hook: "timedOut (run_post_hook c s) = timedOut s"
  by (simp add: run_post_hook_def split: prod.splits)

lemma text_resolveDone: "accumulatedText (resolveDone s) = accumulatedText s"
  by (simp add: resolveDone_def)

lemma text_rejectDone: "accumulatedText (rejectDone m s) = accumulatedText s"
  by (simp add: rejectDone_def)

lemma text_on_event:
  "accumulatedText (on_event cfg rc e s) = text_after (accumulatedText s) [e]"
  by (cases e)
    (simp_all add: Let_def status_working_def run_pre_hook_def text_run_post_hook
      text_resolveDone text_rejectDone)

lemma text_after_append: "text_after acc (xs @ ys) = text_after (text_after acc xs) ys"
  by (induction acc xs rule: text_after.induct) simp_all

lemma text_fold:
  "accumulatedText (fold (on_event cfg rc) evs s) = text_after (accumulatedText s) evs"
proof (induction evs arbitrary: s)
  case Nil
  show ?case by simp
next
  case (Cons e evs)
  have "text_after (accumulatedText s) (e # evs) = text_after (text_after (accumulatedText s) [e]) evs"
    using text_after_append [of "accumulatedText s" "[e]" evs] by simp
  with Cons show ?case by (simp add: text_on_event)
qed

lemma timedOut_on_event: "\<not> settles e \<Longrightarrow> timedOut (on_event cfg rc e s) = timedOut s"
  by (cases e) (simp_all add: Let_def status_working_def run_pre_hook_def timedOut_run_post_hook)

lemma timedOut_kept: "timedOut s \<Longrightarrow> timedOut (on_event cfg rc e s)"
  by (cases e)
    (auto simp: Let_def status_working_def run_pre_hook_def timedOut_run_post_hook
      resolveDone_def rejectDone_def)

lemma timedOut_fold_kept: "timedOut s \<Longrightarrow> timedOut (fold (on_event cfg rc) evs s)"
  by (induction evs arbitrary: s) (simp_all add: timedOut_kept)

lemma failed_publishStatus:
  "st \<noteq> Failed \<Longrightarrow> filter is_failed (publishStatus t c st m f b) = filter is_failed b"
  by (simp add: publishStatus_def)

lemma failed_run_post_hook: "filter is_failed (run_bus (run_post_hook c s)) = filter is_failed (run_bus s)"
  by (simp add: run_post_hook_def onPostToolUse_def Let_def publishTraceArtifact_def
      split: prod.splits option.splits sum.splits)

lemma bus_resolveDone: "run_bus (resolveDone s) = run_bus s"
  by (simp add: resolveDone_def)

lemma bus_rejectDone: "run_bus (rejectDone m s) = run_bus s"
  by (simp add: rejectDone_def)

lemma failed_on_event:
  "filter is_failed (run_bus (on_event cfg rc e s)) = filter is_failed (run_bus s)"
  by (cases e)
    (simp_all add: Let_def status_working_def run_pre_hook_def failed_run_post_hook
      failed_publishStatus bus_resolveDone bus_rejectDone publishStreamingChunk_def
      publishThoughtArtifact_def)

lemma failed_fold:
  "filter is_failed (run_bus (fold (on_event cfg rc) evs s)) = filter is_failed (run_bus s)"
  by (induction evs arbitrary: s) (simp_all add: failed_on_event)

subsection \<open>Task bridge: the ends of an execution\<close>

lemma finalize_eq:
  "finalize cfg rc txt b = b @ [ArtifactUpdate (response_artifact cfg rc txt), completed_status rc, Finished]"
  by (simp add: finalize_def response_artifact_def completed_status_def publishStatus_def
      publishLastChunkMarker_def publishFinalArtifact_def)

lemma failure_message_nonempty: "failure_message cfg msg \<noteq> []"
  by (simp add: failure_message_def)

lemma publish_failed_eq:
  "publish_failed cfg rc msg b = b @ [failed_status rc (failure_message cfg msg), Finished]"
  by (simp add: publish_failed_def failed_status_def publishStatus_def failure_message_nonempty)

lemma execute_acquired:
  assumes "initialize cfg env ex = Inr ex1"
    and "getOrCreate (cfg_session cfg) (env_session env) (rc_contextId rc) (sessionManager ex1) = (Inr acq, m1)"
  shows "\<exists>out. execute cfg env rc ex b = Inr out
           \<and> out_bus out =
               conclude cfg rc (fst (run_prompt cfg env rc (initial_run cfg env rc ex1 b)))
                 (run_bus (snd (run_prompt cfg env rc (initial_run cfg env rc ex1 b))))
           \<and> out_dispatched out = [sent_prompt cfg rc acq]"
  using assms by (simp add: execute_def Let_def)

lemma initial_run_fields:
  "done_state (initial_run cfg env rc ex b) = None"
  "timedOut (initial_run cfg env rc ex b) = False"
  "accumulatedText (initial_run cfg env rc ex b) = []"
  "run_bus (initial_run cfg env rc ex b) = announce rc b"
  by (simp_all add: initial_run_def)

lemma failed_announce: "filter is_failed (announce rc b) = filter is_failed b"
  by (simp add: announce_def publishStatus_def)

lemma streaming_by_timer:
  assumes quiet: "\<forall>e\<in>set (concat (env_events env)). \<not> settles e"
    and pending: "done_state s0 = None"
  shows "streaming_prompt cfg env rc s0 =
           (Inr (if text_after (accumulatedText s0) (concat (env_events env)) \<noteq> []
                 then text_after (accumulatedText s0) (concat (env_events env)) @ TRUNCATION_NOTE
                 else [], True),
            on_timer (fold (on_event cfg rc) (concat (env_events env)) s0))"
proof -
  let ?s = "fold (on_event cfg rc) (concat (env_events env)) s0"
  have run: "await_done cfg rc (env_events env) s0 = on_timer ?s"
    using await_done_timer [OF quiet pending] .
  have "done_state ?s = None"
    using done_state_fold [OF quiet] pending by simp
  then have d: "done_state (on_timer ?s) = Some Resolved" and t: "timedOut (on_timer ?s)"
    and x: "accumulatedText (on_timer ?s) = text_after (accumulatedText s0) (concat (env_events env))"
    by (simp_all add: on_timer_def resolveDone_def text_fold)
  show ?thesis
    by (simp add: streaming_prompt_def Let_def run d t x)
qed

lemma bus_on_timer: "run_bus (on_timer s) = run_bus s"
  by (simp add: on_timer_def resolveDone_def)

text \<open>
  C2, as stated: every streaming execution whose session emits neither session-idle nor
  session-error ends Completed. It does not when \<open>send()\<close> itself rejects with an error
  that is not a timeout: the rejection settles the completion signal as a failure, and
  the terminal status is Failed.
\<close>

theorem streaming_send_rejected_counterexample:
  "execute
     \<lparr>cfg_streaming = True, cfg_cliUrl = [], cfg_streamArtifactChunks = False,
      cfg_promptTimeout = None, cfg_agentName = ''Agent'',
      cfg_session = \<lparr>reuseByContext = True, ttl = None, cleanupInterval = None\<rparr>\<rparr>
     \<lparr>env_start = None, env_uuid = ''u'',
      env_session = \<lparr>now_age = 1000, now_reuse = 1000, destroy_rejects = False,
                      create_result = Inr \<lparr>cs_handle = 1, cs_sessionId = Some ''s1''\<rparr>,
                      now_id = 1000, now_createdAt = 1000, now_lastUsed = 1000\<rparr>,
      env_events = [[MessageDelta ''Hel''], [SendRejected ''connect ECONNREFUSED'']],
      env_wait = TimerWon\<rparr>
     \<lparr>rc_taskId = ''t1'', rc_contextId = ''ctx-1'', rc_userMessage = [TextPart ''P''],
      rc_task = True, rc_meta_trace_id = [], rc_meta_traceId = []\<rparr>
     new_CopilotExecutor []
   = Inr \<lparr>out_executor =
            \<lparr>initialized = True,
             sessionManager =
               \<lparr>contextSessions = [(''ctx-1'', \<lparr>sessionId = ''s1'', session = 1,
                                               createdAt = 1000, lastUsed = 1000\<rparr>)],
                taskSessions = [], cleanupTimer = True, sdk_created = [1],
                sdk_destroyed = [], warnings = 0\<rparr>,
             mcpHooks = \<lparr>hk_context = None, activeToolCalls = []\<rparr>\<rparr>,
          out_bus =
            [StatusUpdate \<lparr>su_taskId = ''t1'', su_contextId = ''ctx-1'', su_state = Working,
                           su_message = Some ''Processing request...'', su_final = False\<rparr>,
             StatusUpdate \<lparr>su_taskId = ''t1'', su_contextId = ''ctx-1'', su_state = Failed,
                           su_message = Some ''Error: connect ECONNREFUSED'', su_final = True\<rparr>,
             Finished],
          out_dispatched = [Send 1 ''P'']\<rparr>"
  by code_simp

text \<open>
  C2, amended: for every streaming execution that has its session, in which the session
  emits neither session-idle nor session-error and \<open>send()\<close> does not reject, the
  completion signal is resolved exactly once, by the prompt timer's callback after
  everything the session emitted, with whatever text accumulated (possibly empty);
  \<open>execute\<close> returns normally, its last events are the response artifact (the
  accumulated text with the truncation notice, or the fixed timeout message when there
  is none), the terminal Completed status (final) and the finish signal, and it
  publishes no Failed status.
\<close>

theorem streaming_timeout_completes:
  assumes streaming: "cfg_streaming cfg"
    and init: "initialize cfg env ex = Inr ex1"
    and acquired: "getOrCreate (cfg_session cfg) (env_session env) (rc_contextId rc) (sessionManager ex1)
                     = (Inr acq, m1)"
    and quiet: "\<forall>e\<in>set (concat (env_events env)). \<not> settles e"
  shows "\<exists>out mid. execute cfg env rc ex b = Inr out
           \<and> out_bus out =
               mid @ [ArtifactUpdate (response_artifact cfg rc
                                        (timeout_text (text_after [] (concat (env_events env))))),
                      completed_status rc, Finished]
           \<and> filter is_failed (out_bus out) = filter is_failed b
           \<and> await_done cfg rc (env_events env) (initial_run cfg env rc ex1 b)
               = on_timer (fold (on_event cfg rc) (concat (env_events env)) (initial_run cfg env rc ex1 b))
           \<and> done_state (await_done cfg rc (env_events env) (initial_run cfg env rc ex1 b))
               = Some Resolved"
proof -
  let ?start = "initial_run cfg env rc ex1 b"
  let ?s = "fold (on_event cfg rc) (concat (env_events env)) ?start"
  let ?txt = "text_after [] (concat (env_events env))"
  have pending: "done_state ?start = None"
    by (simp add: initial_run_fields)
  have prompt: "run_prompt cfg env rc ?start =
      (Inr (if ?txt \<noteq> [] then ?txt @ TRUNCATION_NOTE else [], True), on_timer ?s)"
    using streaming streaming_by_timer [OF quiet pending, of cfg rc]
    by (simp add: run_prompt_def initial_run_fields)
  obtain out where out: "execute cfg env rc ex b = Inr out"
    and bus: "out_bus out = conclude cfg rc (fst (run_prompt cfg env rc ?start))
                              (run_bus (snd (run_prompt cfg env rc ?start)))"
    using execute_acquired [OF init acquired] by blast
  have bus': "out_bus out =
      run_bus ?s @ [ArtifactUpdate (response_artifact cfg rc (timeout_text ?txt)),
                    completed_status rc, Finished]"
    by (simp add: bus prompt conclude_def fallback_text_def timeout_text_def finalize_eq bus_on_timer)
  have nofail: "filter is_failed (out_bus out) = filter is_failed b"
    by (simp add: bus' failed_fold initial_run_fields failed_announce
        response_artifact_def completed_status_def)
  have timer: "await_done cfg rc (env_events env) ?start = on_timer ?s"
    using await_done_timer [OF quiet pending] .
  have "done_state ?s = None"
    by (simp add: done_state_fold [OF quiet] pending)
  then have resolved: "done_state (await_done cfg rc (env_events env) ?start) = Some Resolved"
    by (simp add: timer on_timer_def resolveDone_def)
  from out bus' nofail timer resolved show ?thesis
    by blast
qed

theorem streaming_timeout_completes_witness:
  "\<exists>out mid. execute
       \<lparr>cfg_streaming = True, cfg_cliUrl = [], cfg_streamArtifactChunks = False,
        cfg_promptTimeout = None, cfg_agentName = ''Agent'',
        cfg_session = \<lparr>reuseByContext = True, ttl = None, cleanupInterval = None\<rparr>\<rparr>
       \<lparr>env_start = None, env_uuid = ''u'',
        env_session = \<lparr>now_age = 1000, now_reuse = 1000, destroy_rejects = False,
                        create_result = Inr \<lparr>cs_handle = 1, cs_sessionId = Some ''s1''\<rparr>,
                        now_id = 1000, now_createdAt = 1000, now_lastUsed = 1000\<rparr>,
        env_events = [[MessageDelta ''Hel'', ToolExecutionProgress ''busy''], [MessageDelta ''lo'']],
        env_wait = TimerWon\<rparr>
       \<lparr>rc_taskId = ''t1'', rc_contextId = ''ctx-1'', rc_userMessage = [TextPart ''P''],
        rc_task = True, rc_meta_trace_id = [], rc_meta_traceId = []\<rparr>
       new_CopilotExecutor []
     = Inr out
     \<and> out_bus out =
         mid @ [ArtifactUpdate
                  \<lparr>au_taskId = ''t1'', au_contextId = ''ctx-1'', au_append = False,
                   au_lastChunk = True, au_artifactId = FreshId ''response-'',
                   au_name = ''response'', au_part = TextPart (''Hello'' @ TRUNCATION_NOTE)\<rparr>,
                StatusUpdate \<lparr>su_taskId = ''t1'', su_contextId = ''ctx-1'', su_state = Completed,
                              su_message = None, su_final = True\<rparr>,
                Finished]
     \<and> filter is_failed (out_bus out) = []"
proof -
  let ?cfg = "\<lparr>cfg_streaming = True, cfg_cliUrl = [], cfg_streamArtifactChunks = False,
        cfg_promptTimeout = None, cfg_agentName = ''Agent'',
        cfg_session = \<lparr>reuseByContext = True, ttl = None, cleanupInterval = None\<rparr>\<rparr>"
  let ?env = "\<lparr>env_start = None, env_uuid = ''u'',
        env_session = \<lparr>now_age = 1000, now_reuse = 1000, destroy_rejects = False,
                        create_result = Inr \<lparr>cs_handle = 1, cs_sessionId = Some ''s1''\<rparr>,
                        now_id = 1000, now_createdAt = 1000, now_lastUsed = 1000\<rparr>,
        env_events = [[MessageDelta ''Hel'', ToolExecutionProgress ''busy''], [MessageDelta ''lo'']],
        env_wait = TimerWon\<rparr>"
  let ?rc = "\<lparr>rc_taskId = ''t1'', rc_contextId = ''ctx-1'', rc_userMessage = [TextPart ''P''],
        rc_task = True, rc_meta_trace_id = [], rc_meta_traceId = []\<rparr>"
  let ?exi = "\<lparr>initialized = True,
               sessionManager = startCleanup (cfg_session ?cfg) new_SessionManager,
               mcpHooks = new_McpEvidenceHooks\<rparr>"
  have streaming: "cfg_streaming ?cfg"
    by simp
  have init: "initialize ?cfg ?env new_CopilotExecutor = Inr ?exi"
    by (simp add: initialize_def new_CopilotExecutor_def)
  have acquired: "getOrCreate (cfg_session ?cfg) (env_session ?env) (rc_contextId ?rc) (sessionManager ?exi)
      = (Inr \<lparr>acq_sessionId = ''s1'', acq_session = 1, isNew = True\<rparr>,
         snd (getOrCreate (cfg_session ?cfg) (env_session ?env) (rc_contextId ?rc) (sessionManager ?exi)))"
    by (simp add: getOrCreate_def create_new_def new_session_id_def startCleanup_def
        new_SessionManager_def Let_def)
  have quiet: "\<forall>e\<in>set (concat (env_events ?env)). \<not> settles e"
    by simp
  from streaming_timeout_completes [OF streaming init acquired quiet, of "[]"]
  obtain out mid where
    run: "execute ?cfg ?env ?rc new_CopilotExecutor [] = Inr out"
    and bus: "out_bus out =
         mid @ [ArtifactUpdate (response_artifact ?cfg ?rc (timeout_text (text_after [] (concat (env_events ?env))))),
                completed_status ?rc, Finished]"
    and nofail: "filter is_failed (out_bus out) = filter is_failed []"
    by blast
  have art: "response_artifact ?cfg ?rc (timeout_text (text_after [] (concat (env_events ?env)))) =
      \<lparr>au_taskId = ''t1'', au_contextId = ''ctx-1'', au_append = False,
       au_lastChunk = True, au_artifactId = FreshId ''response-'',
       au_name = ''response'', au_part = TextPart (''Hello'' @ TRUNCATION_NOTE)\<rparr>"
    by (simp add: response_artifact_def timeout_text_def)
  have st: "completed_status ?rc =
      StatusUpdate \<lparr>su_taskId = ''t1'', su_contextId = ''ctx-1'', su_state = Completed,
                    su_message = None, su_final = True\<rparr>"
    by (simp add: completed_status_def)
  from run bus nofail show ?thesis
    unfolding art st by (intro exI [of _ out] exI [of _ mid]) simp
qed

subsection \<open>Task bridge: a session-error\<close>

lemma session_error_settles:
  assumes quiet: "\<forall>e\<in>set pre. \<not> settles e"
    and pending: "done_state s = None"
  shows "done_state (fold (on_event cfg rc) (pre @ SessionError m # post) s) =
           Some (if includes_str (toLowerCase (or_else m ''Session error'')) ''timeout''
                 then Resolved else Rejected (or_else m ''Session error''))"
    and "includes_str (toLowerCase (or_else m ''Session error'')) ''timeout''
         \<Longrightarrow> timedOut (fold (on_event cfg rc) (pre @ SessionError m # post) s)"
proof -
  let ?mid = "fold (on_event cfg rc) pre s"
  let ?hit = "on_event cfg rc (SessionError m) ?mid"
  have mid: "done_state ?mid = None"
    by (simp add: done_state_fold [OF quiet] pending)
  have hit: "done_state ?hit =
      Some (if includes_str (toLowerCase (or_else m ''Session error'')) ''timeout''
            then Resolved else Rejected (or_else m ''Session error''))"
    using mid by (simp add: Let_def resolveDone_def rejectDone_def)
  then have "done_state ?hit \<noteq> None"
    by simp
  from done_state_fold_kept [OF this, of cfg rc post] hit
  show "done_state (fold (on_event cfg rc) (pre @ SessionError m # post) s) =
           Some (if includes_str (toLowerCase (or_else m ''Session error'')) ''timeout''
                 then Resolved else Rejected (or_else m ''Session error''))"
    by simp
  assume "includes_str (toLowerCase (or_else m ''Session error'')) ''timeout''"
  then have "timedOut ?hit"
    by (simp add: Let_def resolveDone_def)
  from timedOut_fold_kept [OF this, of cfg rc post]
  show "timedOut (fold (on_event cfg rc) (pre @ SessionError m # post) s)"
    by simp
qed

lemma streaming_session_error:
  assumes events: "env_events env = before @ (pre @ SessionError m # post) # later"
    and quiet: "\<forall>e\<in>set (concat before @ pre). \<not> settles e"
    and pending: "done_state s0 = None"
  shows "streaming_prompt cfg env rc s0 =
           (if includes_str (toLowerCase (or_else m ''Session error'')) ''timeout''
            then (Inr (if text_after (accumulatedText s0) (concat before @ pre @ SessionError m # post) \<noteq> []
                       then text_after (accumulatedText s0) (concat before @ pre @ SessionError m # post)
                            @ TRUNCATION_NOTE
                       else [], True),
                  fold (on_event cfg rc) (concat before @ pre @ SessionError m # post) s0)
            else (Inl (or_else m ''Session error''),
                  fold (on_event cfg rc) (concat before @ pre @ SessionError m # post) s0))"
proof -
  define fin where "fin = fold (on_event cfg rc) (concat before @ pre @ SessionError m # post) s0"
  let ?mid = "fold (on_event cfg rc) (concat before) s0"
  have quiet_before: "\<forall>e\<in>set (concat before). \<not> settles e"
    and quiet_pre: "\<forall>e\<in>set pre. \<not> settles e"
    using quiet by auto
  have mid: "done_state ?mid = None"
    by (simp add: done_state_fold [OF quiet_before] pending)
  have turn: "fin = fold (on_event cfg rc) (pre @ SessionError m # post) ?mid"
    by (simp add: fin_def)
  have settled: "done_state fin =
      Some (if includes_str (toLowerCase (or_else m ''Session error'')) ''timeout''
            then Resolved else Rejected (or_else m ''Session error''))"
    unfolding turn by (rule session_error_settles(1) [OF quiet_pre mid])
  have late: "includes_str (toLowerCase (or_else m ''Session error'')) ''timeout'' \<Longrightarrow> timedOut fin"
    unfolding turn by (rule session_error_settles(2) [OF quiet_pre mid])
  have "await_done cfg rc (env_events env) s0 =
      await_done cfg rc ((pre @ SessionError m # post) # later) ?mid"
    unfolding events by (rule await_done_append [OF quiet_before pending])
  also have "\<dots> = fin"
    using settled unfolding turn by (simp add: Let_def del: fold_append)
  finally have run: "await_done cfg rc (env_events env) s0 = fin" .
  have acc: "accumulatedText fin = text_after (accumulatedText s0) (concat before @ pre @ SessionError m # post)"
    unfolding fin_def by (rule text_fold)
  show ?thesis
  proof (cases "includes_str (toLowerCase (or_else m ''Session error'')) ''timeout''")
    case True
    with settled late have "done_state fin = Some Resolved" and "timedOut fin"
      by simp_all
    with True show ?thesis
      unfolding fin_def [symmetric] by (simp add: streaming_prompt_def run Let_def acc)
  next
    case False
    with settled have "done_state fin = Some (Rejected (or_else m ''Session error''))"
      by simp
    with False show ?thesis
      unfolding fin_def [symmetric] by (simp add: streaming_prompt_def run Let_def)
  qed
qed

text \<open>
  C1, as stated: a session-error whose message contains \<open>timeout\<close> completes the
  execution, any other session-error fails it. Two executions show otherwise. A
  session-error delivered in the turn in which session-idle has already resolved the
  completion signal changes nothing, since a promise settles once: the execution ends
  Completed with the accumulated text although the error is not a timeout. And the code
  tests the lower-cased message, so a session-error \<open>Request Timeout\<close>, which does not
  contain \<open>timeout\<close>, ends Completed as well.
\<close>

theorem session_error_counterexample:
  "execute
       \<lparr>cfg_streaming = True, cfg_cliUrl = [], cfg_streamArtifactChunks = False,
        cfg_promptTimeout = None, cfg_agentName = ''Agent'',
        cfg_session = \<lparr>reuseByContext = True, ttl = None, cleanupInterval = None\<rparr>\<rparr>
       \<lparr>env_start = None, env_uuid = ''u'',
        env_session = \<lparr>now_age = 1000, now_reuse = 1000, destroy_rejects = False,
                        create_result = Inr \<lparr>cs_handle = 1, cs_sessionId = Some ''s1''\<rparr>,
                        now_id = 1000, now_createdAt = 1000, now_lastUsed = 1000\<rparr>,
        env_events = [[MessageDelta ''Hi'', SessionIdle, SessionError (Some ''boom'')]],
        env_wait = TimerWon\<rparr>
       \<lparr>rc_taskId = ''t1'', rc_contextId = ''ctx-1'', rc_userMessage = [TextPart ''P''],
        rc_task = True, rc_meta_trace_id = [], rc_meta_traceId = []\<rparr>
       new_CopilotExecutor []
     = Inr \<lparr>out_executor =
              \<lparr>initialized = True,
               sessionManager =
                 \<lparr>contextSessions = [(''ctx-1'', \<lparr>sessionId = ''s1'', session = 1,
                                                 createdAt = 1000, lastUsed = 1000\<rparr>)],
                  taskSessions = [], cleanupTimer = True, sdk_created = [1],
                  sdk_destroyed = [], warnings = 0\<rparr>,
               mcpHooks = \<lparr>hk_context = None, activeToolCalls = []\<rparr>\<rparr>,
            out_bus =
              [StatusUpdate \<lparr>su_taskId = ''t1'', su_contextId = ''ctx-1'', su_state = Working,
                             su_message = Some ''Processing request...'', su_final = False\<rparr>,
               ArtifactUpdate \<lparr>au_taskId = ''t1'', au_contextId = ''ctx-1'', au_append = False,
                               au_lastChunk = True, au_artifactId = FreshId ''response-'',
                               au_name = ''response'',
                               au_part = TextPart (''Hi'')\<rparr>,
               StatusUpdate \<lparr>su_taskId = ''t1'', su_contextId = ''ctx-1'', su_state = Completed,
                             su_message = None, su_final = True\<rparr>,
               Finished],
            out_dispatched = [Send 1 ''P'']\<rparr>
   \<and> \<not> includes_str ''Request Timeout'' ''timeout''
   \<and> execute
       \<lparr>cfg_streaming = True, cfg_cliUrl = [], cfg_streamArtifactChunks = False,
        cfg_promptTimeout = None, cfg_agentName = ''Agent'',
        cfg_session = \<lparr>reuseByContext = True, ttl = None, cleanupInterval = None\<rparr>\<rparr>
       \<lparr>env_start = None, env_uuid = ''u'',
        env_session = \<lparr>now_age = 1000, now_reuse = 1000, destroy_rejects = False,
                        create_result = Inr \<lparr>cs_handle = 1, cs_sessionId = Some ''s1''\<rparr>,
                        now_id = 1000, now_createdAt = 1000, now_lastUsed = 1000\<rparr>,
        env_events = [[MessageDelta ''Hi''], [SessionError (Some ''Request Timeout'')]],
        env_wait = TimerWon\<rparr>
       \<lparr>rc_taskId = ''t1'', rc_contextId = ''ctx-1'', rc_userMessage = [TextPart ''P''],
        rc_task = True, rc_meta_trace_id = [], rc_meta_traceId = []\<rparr>
       new_CopilotExecutor []
     = Inr \<lparr>out_executor =
              \<lparr>initialized = True,
               sessionManager =
                 \<lparr>contextSessions = [(''ctx-1'', \<lparr>sessionId = ''s1'', session = 1,
                                                 createdAt = 1000, lastUsed = 1000\<rparr>)],
                  taskSessions = [], cleanupTimer = True, sdk_created = [1],
                  sdk_destroyed = [], warnings = 0\<rparr>,
               mcpHooks = \<lparr>hk_context = None, activeToolCalls = []\<rparr>\<rparr>,
            out_bus =
              [StatusUpdate \<lparr>su_taskId = ''t1'', su_contextId = ''ctx-1'', su_state = Working,
                             su_message = Some ''Processing request...'', su_final = False\<rparr>,
               ArtifactUpdate \<lparr>au_taskId = ''t1'', au_contextId = ''ctx-1'', au_append = False,
                               au_lastChunk = True, au_artifactId = FreshId ''response-'',
                               au_name = ''response'',
                               au_part = TextPart (''Hi'' @ [CHR 0x0A, CHR 0x0A] @ ''---'' @ [CHR 0x0A]
                                   @ ''*Response truncated: processing time limit reached.*'')\<rparr>,
               StatusUpdate \<lparr>su_taskId = ''t1'', su_contextId = ''ctx-1'', su_state = Completed,
                             su_message = None, su_final = True\<rparr>,
               Finished],
            out_dispatched = [Send 1 ''P'']\<rparr>"
  by code_simp

text \<open>
  C1, amended: in streaming mode, when a session-error is delivered while the completion
  signal is still pending (no session-idle, session-error or rejection of \<open>send()\<close> came
  before it), then: if its message contains \<open>timeout\<close> in any letter case, the execution
  ends Completed with whatever text was accumulated by the end of that turn (followed by
  the truncation notice, or the fixed timeout message when there is none) and publishes
  no Failed status; otherwise (an absent message counts as \<open>Session error\<close>) the
  execution ends with a terminal Failed status-update (final) whose message is
  non-empty, followed by the finish signal.
\<close>

theorem session_error_outcome:
  assumes streaming: "cfg_streaming cfg"
    and init: "initialize cfg env ex = Inr ex1"
    and acquired: "getOrCreate (cfg_session cfg) (env_session env) (rc_contextId rc) (sessionManager ex1)
                     = (Inr acq, m1)"
    and events: "env_events env = before @ (pre @ SessionError m # post) # later"
    and quiet: "\<forall>e\<in>set (concat before @ pre). \<not> settles e"
  shows "\<exists>out mid. execute cfg env rc ex b = Inr out
           \<and> (if includes_str (toLowerCase (or_else m ''Session error'')) ''timeout''
               then out_bus out =
                      mid @ [ArtifactUpdate
                               (response_artifact cfg rc
                                  (timeout_text
                                     (text_after [] (concat before @ pre @ SessionError m # post)))),
                             completed_status rc, Finished]
                    \<and> filter is_failed (out_bus out) = filter is_failed b
               else failure_message cfg (or_else m ''Session error'') \<noteq> []
                    \<and> out_bus out =
                        mid @ [failed_status rc (failure_message cfg (or_else m ''Session error'')),
                               Finished])"
proof -
  let ?start = "initial_run cfg env rc ex1 b"
  let ?fin = "fold (on_event cfg rc) (concat before @ pre @ SessionError m # post) ?start"
  let ?msg = "or_else m ''Session error''"
  let ?txt = "text_after [] (concat before @ pre @ SessionError m # post)"
  have pending: "done_state ?start = None"
    by (simp add: initial_run_fields)
  note prompt = streaming_session_error [OF events quiet pending, of cfg rc]
  obtain out where out: "execute cfg env rc ex b = Inr out"
    and bus: "out_bus out = conclude cfg rc (fst (run_prompt cfg env rc ?start))
                              (run_bus (snd (run_prompt cfg env rc ?start)))"
    using execute_acquired [OF init acquired] by blast
  show ?thesis
  proof (cases "includes_str (toLowerCase ?msg) ''timeout''")
    case True
    have bus': "out_bus out =
        run_bus ?fin @ [ArtifactUpdate (response_artifact cfg rc (timeout_text ?txt)),
                        completed_status rc, Finished]"
      using True streaming
      by (simp add: bus run_prompt_def prompt conclude_def fallback_text_def timeout_text_def
          finalize_eq initial_run_fields del: fold_append)
    have "filter is_failed (out_bus out) = filter is_failed b"
      unfolding bus'
      by (simp add: failed_fold initial_run_fields failed_announce
          response_artifact_def completed_status_def del: fold_append)
    with out bus' True show ?thesis
      by auto
  next
    case False
    have "out_bus out = run_bus ?fin @ [failed_status rc (failure_message cfg ?msg), Finished]"
      using False streaming
      by (simp add: bus run_prompt_def prompt conclude_def publish_failed_eq del: fold_append)
    with out False failure_message_nonempty [of cfg ?msg] show ?thesis
      by auto
  qed
qed

theorem session_error_outcome_witness:
  "(\<exists>out mid. execute
       \<lparr>cfg_streaming = True, cfg_cliUrl = [], cfg_streamArtifactChunks = False,
        cfg_promptTimeout = None, cfg_agentName = ''Agent'',
        cfg_session = \<lparr>reuseByContext = True, ttl = None, cleanupInterval = None\<rparr>\<rparr>
       \<lparr>env_start = None, env_uuid = ''u'',
        env_session = \<lparr>now_age = 1000, now_reuse = 1000, destroy_rejects = False,
                        create_result = Inr \<lparr>cs_handle = 1, cs_sessionId = Some ''s1''\<rparr>,
                        now_id = 1000, now_createdAt = 1000, now_lastUsed = 1000\<rparr>,
        env_events = [[MessageDelta ''Hi'', SessionError (Some ''SDK TIMEOUT''), MessageDelta ''!'', SessionIdle],
                      [MessageDelta ''late'']],
        env_wait = TimerWon\<rparr>
       \<lparr>rc_taskId = ''t1'', rc_contextId = ''ctx-1'', rc_userMessage = [TextPart ''P''],
        rc_task = True, rc_meta_trace_id = [], rc_meta_traceId = []\<rparr>
       new_CopilotExecutor []
     = Inr out
     \<and> out_bus out =
         mid @ [ArtifactUpdate
                  \<lparr>au_taskId = ''t1'', au_contextId = ''ctx-1'', au_append = False,
                   au_lastChunk = True, au_artifactId = FreshId ''response-'',
                   au_name = ''response'', au_part = TextPart (''Hi!'' @ TRUNCATION_NOTE)\<rparr>,
                StatusUpdate \<lparr>su_taskId = ''t1'', su_contextId = ''ctx-1'', su_state = Completed,
                              su_message = None, su_final = True\<rparr>,
                Finished]
     \<and> filter is_failed (out_bus out) = [])
   \<and> (\<exists>out mid. execute
       \<lparr>cfg_streaming = True, cfg_cliUrl = [], cfg_streamArtifactChunks = False,
        cfg_promptTimeout = None, cfg_agentName = ''Agent'',
        cfg_session = \<lparr>reuseByContext = True, ttl = None, cleanupInterval = None\<rparr>\<rparr>
       \<lparr>env_start = None, env_uuid = ''u'',
        env_session = \<lparr>now_age = 1000, now_reuse = 1000, destroy_rejects = False,
                        create_result = Inr \<lparr>cs_handle = 1, cs_sessionId = Some ''s1''\<rparr>,
                        now_id = 1000, now_createdAt = 1000, now_lastUsed = 1000\<rparr>,
        env_events = [[MessageDelta ''Hi''], [SessionError None, SessionIdle]],
        env_wait = TimerWon\<rparr>
       \<lparr>rc_taskId = ''t1'', rc_contextId = ''ctx-1'', rc_userMessage = [TextPart ''P''],
        rc_task = True, rc_meta_trace_id = [], rc_meta_traceId = []\<rparr>
       new_CopilotExecutor []
     = Inr out
     \<and> out_bus out =
         mid @ [StatusUpdate \<lparr>su_taskId = ''t1'', su_contextId = ''ctx-1'', su_state = Failed,
                              su_message = Some ''Error: Session error'', su_final = True\<rparr>,
                Finished])"
proof -
  let ?cfg = "\<lparr>cfg_streaming = True, cfg_cliUrl = [], cfg_streamArtifactChunks = False,
        cfg_promptTimeout = None, cfg_agentName = ''Agent'',
        cfg_session = \<lparr>reuseByContext = True, ttl = None, cleanupInterval = None\<rparr>\<rparr>"
  let ?senv = "\<lparr>now_age = 1000, now_reuse = 1000, destroy_rejects = False,
                        create_result = Inr \<lparr>cs_handle = 1, cs_sessionId = Some ''s1''\<rparr>,
                        now_id = 1000, now_createdAt = 1000, now_lastUsed = 1000\<rparr>"
  let ?envA = "\<lparr>env_start = None, env_uuid = ''u'', env_session = ?senv,
        env_events = [[MessageDelta ''Hi'', SessionError (Some ''SDK TIMEOUT''), MessageDelta ''!'', SessionIdle],
                      [MessageDelta ''late'']],
        env_wait = TimerWon\<rparr>"
  let ?envB = "\<lparr>env_start = None, env_uuid = ''u'', env_session = ?senv,
        env_events = [[MessageDelta ''Hi''], [SessionError None, SessionIdle]],
        env_wait = TimerWon\<rparr>"
  let ?rc = "\<lparr>rc_taskId = ''t1'', rc_contextId = ''ctx-1'', rc_userMessage = [TextPart ''P''],
        rc_task = True, rc_meta_trace_id = [], rc_meta_traceId = []\<rparr>"
  let ?exi = "\<lparr>initialized = True,
               sessionManager = startCleanup (cfg_session ?cfg) new_SessionManager,
               mcpHooks = new_McpEvidenceHooks\<rparr>"
  let ?acq = "\<lparr>acq_sessionId = ''s1'', acq_session = 1, isNew = True\<rparr>"
  let ?m1 = "snd (getOrCreate (cfg_session ?cfg) ?senv ''ctx-1'' (sessionManager ?exi))"
  have streaming: "cfg_streaming ?cfg"
    by simp
  have initA: "initialize ?cfg ?envA new_CopilotExecutor = Inr ?exi"
    and initB: "initialize ?cfg ?envB new_CopilotExecutor = Inr ?exi"
    by (simp_all add: initialize_def new_CopilotExecutor_def)
  have acq: "getOrCreate (cfg_session ?cfg) ?senv ''ctx-1'' (sessionManager ?exi) = (Inr ?acq, ?m1)"
    by (simp add: getOrCreate_def create_new_def new_session_id_def startCleanup_def
        new_SessionManager_def Let_def)
  have acqA: "getOrCreate (cfg_session ?cfg) (env_session ?envA) (rc_contextId ?rc) (sessionManager ?exi)
      = (Inr ?acq, ?m1)"
    and acqB: "getOrCreate (cfg_session ?cfg) (env_session ?envB) (rc_contextId ?rc) (sessionManager ?exi)
      = (Inr ?acq, ?m1)"
    using acq by simp_all
  have evA: "env_events ?envA =
      [] @ ([MessageDelta ''Hi''] @ SessionError (Some ''SDK TIMEOUT'') # [MessageDelta ''!'', SessionIdle])
           # [[MessageDelta ''late'']]"
    and evB: "env_events ?envB = [[MessageDelta ''Hi'']] @ ([] @ SessionError None # [SessionIdle]) # []"
    by simp_all
  have quietA: "\<forall>e\<in>set (concat [] @ [MessageDelta ''Hi'']). \<not> settles e"
    and quietB: "\<forall>e\<in>set (concat [[MessageDelta ''Hi'']] @ []). \<not> settles e"
    by simp_all
  have isT: "includes_str (toLowerCase (or_else (Some ''SDK TIMEOUT'') ''Session error'')) ''timeout''"
    by code_simp
  have notT: "\<not> includes_str (toLowerCase (or_else None ''Session error'')) ''timeout''"
    by code_simp
  have msg: "failure_message ?cfg (or_else None ''Session error'') = ''Error: Session error''"
    by code_simp
  have art: "response_artifact ?cfg ?rc
        (timeout_text (text_after [] (concat [] @ [MessageDelta ''Hi'']
           @ SessionError (Some ''SDK TIMEOUT'') # [MessageDelta ''!'', SessionIdle]))) =
      \<lparr>au_taskId = ''t1'', au_contextId = ''ctx-1'', au_append = False,
                   au_lastChunk = True, au_artifactId = FreshId ''response-'',
                   au_name = ''response'', au_part = TextPart (''Hi!'' @ TRUNCATION_NOTE)\<rparr>"
    by (simp add: response_artifact_def timeout_text_def)
  have st: "completed_status ?rc =
      StatusUpdate \<lparr>su_taskId = ''t1'', su_contextId = ''ctx-1'', su_state = Completed,
                              su_message = None, su_final = True\<rparr>"
    by (simp add: completed_status_def)
  have fs: "failed_status ?rc ''Error: Session error'' =
      StatusUpdate \<lparr>su_taskId = ''t1'', su_contextId = ''ctx-1'', su_state = Failed,
                              su_message = Some ''Error: Session error'', su_final = True\<rparr>"
    by (simp add: failed_status_def)
  from session_error_outcome [OF streaming initA acqA evA quietA, of "[]"] isT
  obtain outA midA where
    "execute ?cfg ?envA ?rc new_CopilotExecutor [] = Inr outA"
    "out_bus outA = midA @ [ArtifactUpdate (response_artifact ?cfg ?rc
        (timeout_text (text_after [] (concat [] @ [MessageDelta ''Hi'']
           @ SessionError (Some ''SDK TIMEOUT'') # [MessageDelta ''!'', SessionIdle])))),
                            completed_status ?rc, Finished]"
    "filter is_failed (out_bus outA) = filter is_failed []"
    by auto
  then have A: "\<exists>out mid. execute ?cfg ?envA ?rc new_CopilotExecutor [] = Inr out
      \<and> out_bus out = mid @ [ArtifactUpdate \<lparr>au_taskId = ''t1'', au_contextId = ''ctx-1'', au_append = False,
                   au_lastChunk = True, au_artifactId = FreshId ''response-'',
                   au_name = ''response'', au_part = TextPart (''Hi!'' @ TRUNCATION_NOTE)\<rparr>,
                StatusUpdate \<lparr>su_taskId = ''t1'', su_contextId = ''ctx-1'', su_state = Completed,
                              su_message = None, su_final = True\<rparr>,
                Finished]
      \<and> filter is_failed (out_bus out) = []"
    unfolding art st by (intro exI [of _ outA] exI [of _ midA]) simp
  from session_error_outcome [OF streaming initB acqB evB quietB, of "[]"] notT
  obtain outB midB where
    "execute ?cfg ?envB ?rc new_CopilotExecutor [] = Inr outB"
    "out_bus outB = midB @ [failed_status ?rc (failure_message ?cfg (or_else None ''Session error'')), Finished]"
    by auto
  then have B: "\<exists>out mid. execute ?cfg ?envB ?rc new_CopilotExecutor [] = Inr out
      \<and> out_bus out = mid @ [StatusUpdate \<lparr>su_taskId = ''t1'', su_contextId = ''ctx-1'', su_state = Failed,
                              su_message = Some ''Error: Session error'', su_final = True\<rparr>, Finished]"
    unfolding msg fs by (intro exI [of _ outB] exI [of _ midB]) simp
  from A B show ?thesis
    by (rule conjI)
qed

subsection \<open>Task bridge: buffered mode\<close>

lemma bus_on_hook: "\<not> is_post_hook e \<Longrightarrow> run_bus (on_hook e s) = run_bus s"
  by (cases e) (simp_all add: run_pre_hook_def)

lemma timedOut_on_hook: "timedOut (on_hook e s) = timedOut s"
  by (cases e) (simp_all add: run_pre_hook_def timedOut_run_post_hook)

lemma bus_fold_on_hook:
  "\<forall>e\<in>set evs. \<not> is_post_hook e \<Longrightarrow> run_bus (fold on_hook evs s) = run_bus s"
  by (induction evs arbitrary: s) (simp_all add: bus_on_hook)

lemma timedOut_fold_on_hook: "timedOut (fold on_hook evs s) = timedOut s"
  by (induction evs arbitrary: s) (simp_all add: timedOut_on_hook)

text \<open>
  C7, as stated: a buffered, unchunked execution that produces a response publishes
  exactly one artifact-update. It publishes more when the session calls a tool while the
  prompt runs: the post-tool hook publishes a trace artifact (an artifact-update with
  \<open>append=false\<close>, \<open>lastChunk=true\<close>, named \<open>trace.mcp\<close>) on the same bus, before the
  response artifact.
\<close>

theorem buffered_tool_call_counterexample:
  "map au_name (artifacts (case execute
       \<lparr>cfg_streaming = False, cfg_cliUrl = [], cfg_streamArtifactChunks = False,
        cfg_promptTimeout = None, cfg_agentName = ''Agent'',
        cfg_session = \<lparr>reuseByContext = True, ttl = None, cleanupInterval = None\<rparr>\<rparr>
       \<lparr>env_start = None, env_uuid = ''u'',
        env_session = \<lparr>now_age = 1000, now_reuse = 1000, destroy_rejects = False,
                        create_result = Inr \<lparr>cs_handle = 1, cs_sessionId = Some ''s1''\<rparr>,
                        now_id = 1000, now_createdAt = 1000, now_lastUsed = 1000\<rparr>,
        env_events = [[PostToolUse \<lparr>hi_toolName = ''search'',
                                   hi_toolArgs = JObj [(''q'', JStr ''x'')],
                                   hi_toolResult = JStr ''ok'',
                                   hi_sessionId = ''s1'', hi_uuid = ''u1'',
                                   hi_now = 5, hi_now_end = 5, hi_iso = ''2026''\<rparr>]],
        env_wait = Responded (Some ''R'')\<rparr>
       \<lparr>rc_taskId = ''t1'', rc_contextId = ''ctx-1'', rc_userMessage = [TextPart ''P''],
        rc_task = False, rc_meta_trace_id = [], rc_meta_traceId = []\<rparr>
       new_CopilotExecutor []
     of Inl err \<Rightarrow> [] | Inr out \<Rightarrow> out_bus out))
   = [''trace.mcp'', ''response'']"
proof -
  have plain: "\<not> is_sensitive ''q''"
    by code_simp
  show ?thesis
    by (simp add: execute_def initialize_def new_CopilotExecutor_def getOrCreate_def create_new_def
        new_session_id_def startCleanup_def new_SessionManager_def new_McpEvidenceHooks_def
        run_prompt_def buffered_prompt_def initial_run_def announce_def publishStatus_def
        setContext_def execution_context_def run_post_hook_def onPostToolUse_def tool_name_def
        tool_args_def plain js_assign_def truncate_data_def truncate_json_def
        safeJson_JSON_stringify MAX_DATA_SIZE_def quote_json_def escape_char_def
        publishTraceArtifact_def conclude_def
        fallback_text_def finalize_def publishFinalArtifact_def or_else_def Let_def)
qed

text \<open>
  C7, amended: for an execution with streaming disabled and chunking disabled that has
  its session and gets a non-empty response, and during which no tool invocation
  completes (no post-tool hook fires), the events published are, in order: the Submitted
  task event when no task record came with the request, the Working status, exactly one
  artifact-update with \<open>append=false\<close> and \<open>lastChunk=true\<close> carrying the response text,
  exactly one status-update with \<open>state=completed\<close> and \<open>final=true\<close>, and the finish
  signal.
\<close>

theorem buffered_response_events:
  assumes buffered: "\<not> cfg_streaming cfg"
    and unchunked: "\<not> cfg_streamArtifactChunks cfg"
    and init: "initialize cfg env ex = Inr ex1"
    and acquired: "getOrCreate (cfg_session cfg) (env_session env) (rc_contextId rc) (sessionManager ex1)
                     = (Inr acq, m1)"
    and response: "env_wait env = Responded (Some txt)"
    and nonempty: "txt \<noteq> []"
    and no_tools: "\<forall>e\<in>set (concat (env_events env)). \<not> is_post_hook e"
  shows "\<exists>out. execute cfg env rc ex b = Inr out
           \<and> out_bus out =
               announce rc b @
               [ArtifactUpdate \<lparr>au_taskId = rc_taskId rc, au_contextId = rc_contextId rc,
                                au_append = False, au_lastChunk = True,
                                au_artifactId = FreshId ''response-'', au_name = ''response'',
                                au_part = TextPart txt\<rparr>,
                StatusUpdate \<lparr>su_taskId = rc_taskId rc, su_contextId = rc_contextId rc,
                              su_state = Completed, su_message = None, su_final = True\<rparr>,
                Finished]
           \<and> artifacts (announce rc b) = artifacts b"
proof -
  let ?start = "initial_run cfg env rc ex1 b"
  let ?fin = "fold on_hook (concat (env_events env)) ?start"
  have prompt: "run_prompt cfg env rc ?start = (Inr (txt, False), ?fin)"
    using buffered response
    by (simp add: run_prompt_def buffered_prompt_def Let_def or_else_def
        timedOut_fold_on_hook initial_run_fields)
  have bus: "run_bus ?fin = announce rc b"
    by (simp add: bus_fold_on_hook [OF no_tools] initial_run_fields)
  obtain out where out: "execute cfg env rc ex b = Inr out"
    and concl: "out_bus out = conclude cfg rc (fst (run_prompt cfg env rc ?start))
                                (run_bus (snd (run_prompt cfg env rc ?start)))"
    using execute_acquired [OF init acquired] by blast
  have "out_bus out = announce rc b @
      [ArtifactUpdate (response_artifact cfg rc txt), completed_status rc, Finished]"
    using nonempty by (simp add: concl prompt conclude_def fallback_text_def finalize_eq bus)
  moreover have "artifacts (announce rc b) = artifacts b"
  proof -
    have app: "\<And>xs ys. artifacts (xs @ ys) = artifacts xs @ artifacts ys"
    proof -
      fix xs ys :: bus
      show "artifacts (xs @ ys) = artifacts xs @ artifacts ys"
        by (induction xs rule: artifacts.induct) simp_all
    qed
    show ?thesis
      by (simp add: announce_def publishStatus_def app)
  qed
  ultimately show ?thesis
    using out unchunked by (simp add: response_artifact_def completed_status_def)
qed

theorem buffered_response_events_witness:
  "\<exists>out. execute
       \<lparr>cfg_streaming = False, cfg_cliUrl = [], cfg_streamArtifactChunks = False,
        cfg_promptTimeout = None, cfg_agentName = ''Agent'',
        cfg_session = \<lparr>reuseByContext = True, ttl = None, cleanupInterval = None\<rparr>\<rparr>
       \<lparr>env_start = None, env_uuid = ''u'',
        env_session = \<lparr>now_age = 1000, now_reuse = 1000, destroy_rejects = False,
                        create_result = Inr \<lparr>cs_handle = 1, cs_sessionId = Some ''s1''\<rparr>,
                        now_id = 1000, now_createdAt = 1000, now_lastUsed = 1000\<rparr>,
        env_events = [], env_wait = Responded (Some ''R'')\<rparr>
       \<lparr>rc_taskId = ''t1'', rc_contextId = ''ctx-1'', rc_userMessage = [TextPart ''P''],
        rc_task = False, rc_meta_trace_id = [], rc_meta_traceId = []\<rparr>
       new_CopilotExecutor []
     = Inr out
     \<and> out_bus out =
         [TaskEvent ''t1'' ''ctx-1'' [TextPart ''P''],
          StatusUpdate \<lparr>su_taskId = ''t1'', su_contextId = ''ctx-1'', su_state = Working,
                        su_message = Some ''Processing request...'', su_final = False\<rparr>,
          ArtifactUpdate \<lparr>au_taskId = ''t1'', au_contextId = ''ctx-1'', au_append = False,
                          au_lastChunk = True, au_artifactId = FreshId ''response-'',
                          au_name = ''response'', au_part = TextPart ''R''\<rparr>,
          StatusUpdate \<lparr>su_taskId = ''t1'', su_contextId = ''ctx-1'', su_state = Completed,
                        su_message = None, su_final = True\<rparr>,
          Finished]"
proof -
  let ?cfg = "\<lparr>cfg_streaming = False, cfg_cliUrl = [], cfg_streamArtifactChunks = False,
        cfg_promptTimeout = None, cfg_agentName = ''Agent'',
        cfg_session = \<lparr>reuseByContext = True, ttl = None, cleanupInterval = None\<rparr>\<rparr>"
  let ?env = "\<lparr>env_start = None, env_uuid = ''u'',
        env_session = \<lparr>now_age = 1000, now_reuse = 1000, destroy_rejects = False,
                        create_result = Inr \<lparr>cs_handle = 1, cs_sessionId = Some ''s1''\<rparr>,
                        now_id = 1000, now_createdAt = 1000, now_lastUsed = 1000\<rparr>,
        env_events = [], env_wait = Responded (Some ''R'')\<rparr>"
  let ?rc = "\<lparr>rc_taskId = ''t1'', rc_contextId = ''ctx-1'', rc_userMessage = [TextPart ''P''],
        rc_task = False, rc_meta_trace_id = [], rc_meta_traceId = []\<rparr>"
  let ?exi = "\<lparr>initialized = True,
               sessionManager = startCleanup (cfg_session ?cfg) new_SessionManager,
               mcpHooks = new_McpEvidenceHooks\<rparr>"
  have buffered: "\<not> cfg_streaming ?cfg" and unchunked: "\<not> cfg_streamArtifactChunks ?cfg"
    by simp_all
  have init: "initialize ?cfg ?env new_CopilotExecutor = Inr ?exi"
    by (simp add: initialize_def new_CopilotExecutor_def)
  have acquired: "getOrCreate (cfg_session ?cfg) (env_session ?env) (rc_contextId ?rc) (sessionManager ?exi)
      = (Inr \<lparr>acq_sessionId = ''s1'', acq_session = 1, isNew = True\<rparr>,
         snd (getOrCreate (cfg_session ?cfg) (env_session ?env) (rc_contextId ?rc) (sessionManager ?exi)))"
    by (simp add: getOrCreate_def create_new_def new_session_id_def startCleanup_def
        new_SessionManager_def Let_def)
  have response: "env_wait ?env = Responded (Some ''R'')" and nonempty: "''R'' \<noteq> []"
    and no_tools: "\<forall>e\<in>set (concat (env_events ?env)). \<not> is_post_hook e"
    by simp_all
  from buffered_response_events [OF buffered unchunked init acquired response nonempty no_tools, of "[]"]
  show ?thesis
    by (simp add: announce_def publishStatus_def)
qed

subsection \<open>Task bridge: the end of an execution\<close>

lemma cleanup_execution_clears:
  "getSessionForTask (sessionManager (cleanup_execution t ex)) t = None
   \<and> hk_context (mcpHooks (cleanup_execution t ex)) = None
   \<and> activeToolCalls (mcpHooks (cleanup_execution t ex)) = []"
  by (simp add: cleanup_execution_def getSessionForTask_def untrackTask_def clearContext_def
      map_get_delete_same)

text \<open>
  C8, as stated: the tracking entry is removed and the recorder's context cleared in every
  ending mode, cancel included. \<open>cancelTask\<close> does neither: it publishes the Canceled
  status and finishes the bus, and leaves the executor as it was, so a tracked task is
  still tracked and a bound context still bound after it.
\<close>

theorem cancelTask_keeps_tracking_counterexample:
  "getSessionForTask
     (sessionManager (fst (cancelTask ''t1''
        \<lparr>initialized = True,
         sessionManager = trackTask ''t1'' ''s1'' new_SessionManager,
         mcpHooks = setContext \<lparr>hc_taskId = ''t1'', hc_contextId = ''ctx-1'', hc_agentId = ''agent'',
                                hc_agentName = ''Agent'', hc_traceId = ''ctx-1''\<rparr> new_McpEvidenceHooks\<rparr>
        []))) ''t1'' = Some ''s1''
   \<and> hk_context
     (mcpHooks (fst (cancelTask ''t1''
        \<lparr>initialized = True,
         sessionManager = trackTask ''t1'' ''s1'' new_SessionManager,
         mcpHooks = setContext \<lparr>hc_taskId = ''t1'', hc_contextId = ''ctx-1'', hc_agentId = ''agent'',
                                hc_agentName = ''Agent'', hc_traceId = ''ctx-1''\<rparr> new_McpEvidenceHooks\<rparr>
        [])))
     = Some \<lparr>hc_taskId = ''t1'', hc_contextId = ''ctx-1'', hc_agentId = ''agent'',
             hc_agentName = ''Agent'', hc_traceId = ''ctx-1''\<rparr>"
  by (simp add: cancelTask_def getSessionForTask_def trackTask_def new_SessionManager_def
      setContext_def new_McpEvidenceHooks_def)

text \<open>
  C8, amended: whenever a call of \<open>execute\<close> gets past initialization it returns, and at
  its end, on success and on failure alike, the task-to-session tracking entry of its
  taskId is removed and the Tool Evidence Recorder's correlation context (with its
  pending tool-call records) is cleared. \<open>cancelTask\<close> removes no entry and clears no
  context: it publishes the terminal Canceled status and the finish signal and leaves
  the executor unchanged.
\<close>

theorem execute_always_cleans_up:
  assumes "initialized ex \<or> env_start env = None"
  shows "(\<exists>out. execute cfg env rc ex b = Inr out
            \<and> getSessionForTask (sessionManager (out_executor out)) (rc_taskId rc) = None
            \<and> hk_context (mcpHooks (out_executor out)) = None
            \<and> activeToolCalls (mcpHooks (out_executor out)) = [])
         \<and> cancelTask taskId ex b =
             (ex, b @ [StatusUpdate \<lparr>su_taskId = taskId, su_contextId = [], su_state = Canceled,
                                     su_message = None, su_final = True\<rparr>, Finished])"
proof
  have "\<exists>ex1. initialize cfg env ex = Inr ex1"
  proof (cases "initialized ex")
    case True
    then show ?thesis by (simp add: initialize_def)
  next
    case False
    with assms show ?thesis by (simp add: initialize_def)
  qed
  then obtain ex1 where init: "initialize cfg env ex = Inr ex1"
    by blast
  show "\<exists>out. execute cfg env rc ex b = Inr out
            \<and> getSessionForTask (sessionManager (out_executor out)) (rc_taskId rc) = None
            \<and> hk_context (mcpHooks (out_executor out)) = None
            \<and> activeToolCalls (mcpHooks (out_executor out)) = []"
  proof (cases "getOrCreate (cfg_session cfg) (env_session env) (rc_contextId rc) (sessionManager ex1)")
    case (Pair r m1)
    then show ?thesis
      using init
      by (cases r) (simp_all add: execute_def Let_def cleanup_execution_clears)
  qed
next
  show "cancelTask taskId ex b =
          (ex, b @ [StatusUpdate \<lparr>su_taskId = taskId, su_contextId = [], su_state = Canceled,
                                  su_message = None, su_final = True\<rparr>, Finished])"
    by (simp add: cancelTask_def publishStatus_def)
qed

theorem execute_always_cleans_up_witness:
  "\<exists>out. execute
       \<lparr>cfg_streaming = True, cfg_cliUrl = [], cfg_streamArtifactChunks = False,
        cfg_promptTimeout = None, cfg_agentName = ''Agent'',
        cfg_session = \<lparr>reuseByContext = True, ttl = None, cleanupInterval = None\<rparr>\<rparr>
       \<lparr>env_start = None, env_uuid = ''u'',
        env_session = \<lparr>now_age = 1000, now_reuse = 1000, destroy_rejects = False,
                        create_result = Inr \<lparr>cs_handle = 1, cs_sessionId = Some ''s1''\<rparr>,
                        now_id = 1000, now_createdAt = 1000, now_lastUsed = 1000\<rparr>,
        env_events = [[PreToolUse \<lparr>hi_toolName = ''search'',
                                   hi_toolArgs = JObj [(''q'', JStr ''x'')],
                                   hi_toolResult = JUndefined,
                                   hi_sessionId = ''s1'', hi_uuid = ''u1'',
                                   hi_now = 5, hi_now_end = 5, hi_iso = ''2026''\<rparr>,
                       MessageDelta ''Hi''],
                      [SessionIdle]],
        env_wait = TimerWon\<rparr>
       \<lparr>rc_taskId = ''t1'', rc_contextId = ''ctx-1'', rc_userMessage = [TextPart ''P''],
        rc_task = True, rc_meta_trace_id = [], rc_meta_traceId = []\<rparr>
       new_CopilotExecutor []
     = Inr out
     \<and> getSessionForTask (sessionManager (out_executor out)) ''t1'' = None
     \<and> hk_context (mcpHooks (out_executor out)) = None
     \<and> activeToolCalls (mcpHooks (out_executor out)) = []
     \<and> out_dispatched out = [Send 1 ''P'']
     \<and> out_executor out =
         cleanup_execution ''t1''
           \<lparr>initialized = True,
            sessionManager =
              \<lparr>contextSessions = [(''ctx-1'', \<lparr>sessionId = ''s1'', session = 1,
                                              createdAt = 1000, lastUsed = 1000\<rparr>)],
               taskSessions = [(''t1'', ''s1'')], cleanupTimer = True, sdk_created = [1],
               sdk_destroyed = [], warnings = 0\<rparr>,
            mcpHooks =
              \<lparr>hk_context = Some \<lparr>hc_taskId = ''t1'', hc_contextId = ''ctx-1'',
                                   hc_agentId = ''agent'', hc_agentName = ''Agent'',
                                   hc_traceId = ''ctx-1''\<rparr>,
               activeToolCalls = [(''s1:search'',
                                   \<lparr>toolCallId = ''u1'', tc_args = JObj [(''q'', JStr ''x'')],
                                    startTime = 5\<rparr>)]\<rparr>\<rparr>"
proof -
  let ?cfg = "\<lparr>cfg_streaming = True, cfg_cliUrl = [], cfg_streamArtifactChunks = False,
        cfg_promptTimeout = None, cfg_agentName = ''Agent'',
        cfg_session = \<lparr>reuseByContext = True, ttl = None, cleanupInterval = None\<rparr>\<rparr>"
  let ?env = "\<lparr>env_start = None, env_uuid = ''u'',
        env_session = \<lparr>now_age = 1000, now_reuse = 1000, destroy_rejects = False,
                        create_result = Inr \<lparr>cs_handle = 1, cs_sessionId = Some ''s1''\<rparr>,
                        now_id = 1000, now_createdAt = 1000, now_lastUsed = 1000\<rparr>,
        env_events = [[PreToolUse \<lparr>hi_toolName = ''search'',
                                   hi_toolArgs = JObj [(''q'', JStr ''x'')],
                                   hi_toolResult = JUndefined,
                                   hi_sessionId = ''s1'', hi_uuid = ''u1'',
                                   hi_now = 5, hi_now_end = 5, hi_iso = ''2026''\<rparr>,
                       MessageDelta ''Hi''],
                      [SessionIdle]],
        env_wait = TimerWon\<rparr>"
  let ?rc = "\<lparr>rc_taskId = ''t1'', rc_contextId = ''ctx-1'', rc_userMessage = [TextPart ''P''],
        rc_task = True, rc_meta_trace_id = [], rc_meta_traceId = []\<rparr>"
  have run: "execute ?cfg ?env ?rc new_CopilotExecutor [] =
      Inr \<lparr>out_executor =
             cleanup_execution ''t1''
               \<lparr>initialized = True,
            sessionManager =
              \<lparr>contextSessions = [(''ctx-1'', \<lparr>sessionId = ''s1'', session = 1,
                                              createdAt = 1000, lastUsed = 1000\<rparr>)],
               taskSessions = [(''t1'', ''s1'')], cleanupTimer = True, sdk_created = [1],
               sdk_destroyed = [], warnings = 0\<rparr>,
            mcpHooks =
              \<lparr>hk_context = Some \<lparr>hc_taskId = ''t1'', hc_contextId = ''ctx-1'',
                                   hc_agentId = ''agent'', hc_agentName = ''Agent'',
                                   hc_traceId = ''ctx-1''\<rparr>,
               activeToolCalls = [(''s1:search'',
                                   \<lparr>toolCallId = ''u1'', tc_args = JObj [(''q'', JStr ''x'')],
                                    startTime = 5\<rparr>)]\<rparr>\<rparr>,
           out_bus =
             [StatusUpdate \<lparr>su_taskId = ''t1'', su_contextId = ''ctx-1'', su_state = Working,
                            su_message = Some ''Processing request...'', su_final = False\<rparr>,
              ArtifactUpdate \<lparr>au_taskId = ''t1'', au_contextId = ''ctx-1'', au_append = False,
                              au_lastChunk = True, au_artifactId = FreshId ''response-'',
                              au_name = ''response'', au_part = TextPart ''Hi''\<rparr>,
              StatusUpdate \<lparr>su_taskId = ''t1'', su_contextId = ''ctx-1'', su_state = Completed,
                            su_message = None, su_final = True\<rparr>,
              Finished],
           out_dispatched = [Send 1 ''P'']\<rparr>"
    by code_simp
  have "initialized new_CopilotExecutor \<or> env_start ?env = None"
    by simp
  from execute_always_cleans_up [OF this, of ?cfg ?rc "[]"]
  obtain out where out: "execute ?cfg ?env ?rc new_CopilotExecutor [] = Inr out"
    and clean: "getSessionForTask (sessionManager (out_executor out)) (rc_taskId ?rc) = None"
      "hk_context (mcpHooks (out_executor out)) = None"
      "activeToolCalls (mcpHooks (out_executor out)) = []"
    by blast
  from out run have "out_dispatched out = [Send 1 ''P'']"
    and "out_executor out =
         cleanup_execution ''t1''
           \<lparr>initialized = True,
            sessionManager =
              \<lparr>contextSessions = [(''ctx-1'', \<lparr>sessionId = ''s1'', session = 1,
                                              createdAt = 1000, lastUsed = 1000\<rparr>)],
               taskSessions = [(''t1'', ''s1'')], cleanupTimer = True, sdk_created = [1],
               sdk_destroyed = [], warnings = 0\<rparr>,
            mcpHooks =
              \<lparr>hk_context = Some \<lparr>hc_taskId = ''t1'', hc_contextId = ''ctx-1'',
                                   hc_agentId = ''agent'', hc_agentName = ''Agent'',
                                   hc_traceId = ''ctx-1''\<rparr>,
               activeToolCalls = [(''s1:search'',
                                   \<lparr>toolCallId = ''u1'', tc_args = JObj [(''q'', JStr ''x'')],
                                    startTime = 5\<rparr>)]\<rparr>\<rparr>"
    by auto
  with out clean show ?thesis
    by (intro exI [of _ out]) simp
qed

end
